theory Spec2Isabelle
  imports Complex_Main "HOL-Library.Word"
begin

unbundle bit_operations_syntax

section \<open>C library: strings and printf conversions\<close>

type_synonym byte = "8 word"

text \<open>
  A C string is the list of its characters before the terminating NUL. \<open>starts_with\<close>
  and \<open>strstr\<close> follow the C library: \<open>strstr h n\<close> is the suffix of \<open>h\<close> that starts at
  the first occurrence of \<open>n\<close> (the pointer C returns), or \<open>None\<close> for the null pointer.
\<close>

fun starts_with :: "string \<Rightarrow> string \<Rightarrow> bool" where
  "starts_with hs [] = True"
| "starts_with [] (n # ns) = False"
| "starts_with (h # hs) (n # ns) = (h = n \<and> starts_with hs ns)"

fun strstr :: "string \<Rightarrow> string \<Rightarrow> string option" where
  "strstr [] needle = (if needle = [] then Some [] else None)"
| "strstr (h # hs) needle =
     (if starts_with (h # hs) needle then Some (h # hs) else strstr hs needle)"

text \<open>The bytes of a buffer read as a C string (as \<open>%s\<close> prints them).\<close>

definition char_of_byte :: "byte \<Rightarrow> char" where
  "char_of_byte b = char_of (unat b)"

definition byte_of_char :: "char \<Rightarrow> byte" where
  "byte_of_char c = of_char c"

definition c_str :: "byte list \<Rightarrow> string" where
  "c_str bs = map char_of_byte (takeWhile (\<lambda>b. b \<noteq> 0) bs)"

text \<open>Decimal digits of a natural number, and the conversions \<open>%d\<close>, \<open>%ld\<close> and \<open>%02X\<close>.\<close>

definition digit_char :: "nat \<Rightarrow> char" where
  "digit_char n = ''0123456789ABCDEF'' ! n"

fun decimal :: "nat \<Rightarrow> string" where
  "decimal n = (if n < 10 then [digit_char n] else decimal (n div 10) @ [digit_char (n mod 10)])"

declare decimal.simps [simp del]

definition fmt_int :: "int \<Rightarrow> string" where
  "fmt_int i = (if i < 0 then CHR ''-'' # decimal (nat (- i)) else decimal (nat i))"

text \<open>\<open>%d\<close> prints a 32-bit \<open>int\<close>, \<open>%ld\<close> a 64-bit \<open>long\<close> (LP64 Linux); an
  \<open>unsigned long\<close> argument handed to \<open>%ld\<close> is printed as the signed value of its bits.\<close>

definition fmt_d :: "32 word \<Rightarrow> string" where
  "fmt_d x = fmt_int (sint x)"

definition fmt_ld :: "64 word \<Rightarrow> string" where
  "fmt_ld x = fmt_int (sint x)"

definition fmt_02X :: "byte \<Rightarrow> string" where
  "fmt_02X b = [digit_char (unat (drop_bit 4 b)), digit_char (unat (b AND 15))]"

section \<open>The JSON values of the jansson library\<close>

text \<open>
  The daemon reads JSON through jansson (\<open>json_loads\<close>, \<open>json_object_get\<close>, \<open>json_is_string\<close>,
  \<open>json_is_number\<close>, \<open>json_string_value\<close>, \<open>json_number_value\<close>). A \<open>json_t *\<close> is a value of
  \<open>json option\<close>, \<open>None\<close> being the null pointer. The library rejects a NUL inside a string
  (the source passes flags \<open>0\<close>), so the \<open>char *\<close> of a string value is the whole string.
  A real number carries the rational value of its double.
\<close>

datatype json =
    JNull | JTrue | JFalse
  | JInteger int
  | JReal rat
  | JString string
  | JArray "json list"
  | JObject "(string \<times> json) list"

datatype json_error_t = Json_error string int

fun json_object_get :: "json \<Rightarrow> string \<Rightarrow> json option" where
  "json_object_get (JObject kvs) k = map_of kvs k"
| "json_object_get j k = None"

fun json_is_string :: "json option \<Rightarrow> bool" where
  "json_is_string (Some (JString s)) = True"
| "json_is_string j = False"

fun json_is_number :: "json option \<Rightarrow> bool" where
  "json_is_number (Some (JInteger i)) = True"
| "json_is_number (Some (JReal q)) = True"
| "json_is_number j = False"

fun json_string_value :: "json option \<Rightarrow> string" where
  "json_string_value (Some (JString s)) = s"
| "json_string_value j = []"

fun json_number_value :: "json option \<Rightarrow> rat" where
  "json_number_value (Some (JInteger i)) = of_int i"
| "json_number_value (Some (JReal q)) = q"
| "json_number_value j = 0"

text \<open>
  The conversion of a double to \<open>int\<close> (\<open>int amount = json_number_value(...)\<close>) drops the
  fraction. C leaves it undefined outside the range of \<open>int\<close>; the embedding wraps there.
\<close>

definition int_of_double :: "rat \<Rightarrow> 32 word" where
  "int_of_double q = word_of_int (if q < 0 then - \<lfloor>- q\<rfloor> else \<lfloor>q\<rfloor>)"

section \<open>The serial line and the devices\<close>

text \<open>
  An exchange on the serial line is either one of the vendor library's typed commands
  (\<open>ssp6_enable\<close>, \<open>ssp6_set_inhibits\<close>, ...) or \<open>send_ssp_command\<close> on the \<open>CommandData\<close>
  bytes the daemon's own \<open>mc_ssp_*\<close> functions build.
\<close>

datatype device_ref = Hopper | Validator

datatype ssp_call =
    SSP6_ENABLE
  | SSP6_DISABLE
  | SSP6_SET_INHIBITS byte byte
  | SSP6_PAYOUT "32 word" string byte
  | SSP6_HOST_PROTOCOL byte
  | SSP6_RUN_CALIBRATION
  | SEND_SSP_COMMAND "byte list"

text \<open>The answer of the line: none within the timeout, or the status byte and the data
  bytes that follow it, which together become \<open>sspC.ResponseData\<close>.\<close>

datatype ssp_answer = No_answer | Answer byte "byte list"

datatype SSP_RESPONSE_ENUM = SSP_RESPONSE_TIMEOUT | SSP_RESPONSE byte

datatype SSP_POLL_CODE =
    SSP_POLL_RESET | SSP_POLL_READ | SSP_POLL_CREDIT | SSP_POLL_REJECTING
  | SSP_POLL_REJECTED | SSP_POLL_STACKING | SSP_POLL_STORED | SSP_POLL_STACKED
  | SSP_POLL_SAFE_JAM | SSP_POLL_UNSAFE_JAM | SSP_POLL_DISABLED | SSP_POLL_FRAUD_ATTEMPT
  | SSP_POLL_STACKER_FULL | SSP_POLL_CASH_BOX_REMOVED | SSP_POLL_CASH_BOX_REPLACED
  | SSP_POLL_CLEARED_FROM_FRONT | SSP_POLL_CLEARED_INTO_CASHBOX | SSP_POLL_CALIBRATION_FAIL
  | SSP_POLL_DISPENSING | SSP_POLL_DISPENSED | SSP_POLL_FLOATING | SSP_POLL_FLOATED
  | SSP_POLL_CASHBOX_PAID | SSP_POLL_JAMMED | SSP_POLL_COIN_CREDIT | SSP_POLL_EMPTY
  | SSP_POLL_EMPTYING | SSP_POLL_SMART_EMPTYING | SSP_POLL_SMART_EMPTIED
  | SSP_POLL_INCOMPLETE_PAYOUT | SSP_POLL_INCOMPLETE_FLOAT | SSP_POLL_OTHER

datatype CALIBRATION_CODE =
    NO_FAILUE | SENSOR_FLAP | SENSOR_EXIT | SENSOR_COIL1 | SENSOR_COIL2
  | NOT_INITIALISED | CHECKSUM_ERROR | COMMAND_RECAL | CALIBRATION_OTHER

text \<open>
  What the daemon takes from outside its own source file: jansson's decoder, the serial
  line (which answers an exchange given all exchanges so far, the current one last) and
  the values of the vendor headers' constants. \<open>poll_code\<close> and \<open>calibration_code\<close> tell
  which named constant of the headers a value is equal to, if any.
\<close>

record env =
  json_loads :: "string \<Rightarrow> json_error_t + json"
  transport :: "(device_ref \<times> ssp_call) list \<Rightarrow> ssp_answer"
  poll_code :: "byte \<Rightarrow> SSP_POLL_CODE"
  calibration_code :: "64 word \<Rightarrow> CALIBRATION_CODE"
  SSP_RESPONSE_OK :: byte
  SSP_CMD_EMPTY :: byte
  SSP_CMD_FLOAT :: byte
  SSP_CMD_CHANNEL_SECURITY :: byte
  SSP6_OPTION_BYTE_DO :: byte
  SSP6_OPTION_BYTE_TEST :: byte

record SSP6_CHANNEL_DATA =
  channel_value :: "32 word"
  channel_cc :: string

text \<open>\<open>struct m_device\<close>: the fields the handlers read or write. \<open>ChannelData\<close> is
  \<open>sspSetupReq.ChannelData\<close>, \<open>ResponseData\<close> is \<open>sspC.ResponseData\<close>.\<close>

record m_device =
  channelInhibits :: byte
  ResponseData :: "byte list"
  ChannelData :: "SSP6_CHANNEL_DATA list"

text \<open>
  The state the callbacks work on: \<open>struct m_metacash\<close> (\<open>deviceAvailable\<close>, \<open>hopper\<close>,
  \<open>validator\<close>), the global \<open>receivedSignal\<close>, the messages handed to the publishing
  connection (topic and payload, oldest first), the exchanges made on the serial line,
  and of the heap the strings owned by a JSON value that a handler has passed to \<open>free\<close>
  (oldest first).
\<close>

record world =
  deviceAvailable :: bool
  hopper :: m_device
  validator :: m_device
  receivedSignal :: int
  published :: "(string \<times> string) list"
  wire :: "(device_ref \<times> ssp_call) list"
  frees :: "string list"

text \<open>
  The ways a callback leaves the defined behaviour of C or the process: an array read
  outside the array, the read of a pointer that was never assigned, a block released
  twice (which the C library answers by aborting the process), and \<open>exit\<close>.
\<close>

datatype fault = Out_of_bounds | Uninitialised_read | Double_free | Exit int

fun get_device :: "device_ref \<Rightarrow> world \<Rightarrow> m_device" where
  "get_device Hopper w = hopper w"
| "get_device Validator w = validator w"

fun update_device :: "device_ref \<Rightarrow> (m_device \<Rightarrow> m_device) \<Rightarrow> world \<Rightarrow> world" where
  "update_device Hopper f w = w\<lparr>hopper := f (hopper w)\<rparr>"
| "update_device Validator f w = w\<lparr>validator := f (validator w)\<rparr>"

text \<open>An array read \<open>ResponseData[i]\<close>; the list is the whole array.\<close>

definition ResponseData_at :: "m_device \<Rightarrow> nat \<Rightarrow> fault + byte" where
  "ResponseData_at d i =
     (if i < length (ResponseData d) then Inr (ResponseData d ! i) else Inl Out_of_bounds)"

text \<open>One exchange: the call goes on the line; an answer overwrites \<open>ResponseData\<close> of
  the device, a timeout leaves it as it was.\<close>

definition exchange :: "env \<Rightarrow> device_ref \<Rightarrow> ssp_call \<Rightarrow> world \<Rightarrow> SSP_RESPONSE_ENUM \<times> world" where
  "exchange e d c w =
     (let w1 = w\<lparr>wire := wire w @ [(d, c)]\<rparr> in
      case transport e (wire w1) of
        No_answer \<Rightarrow> (SSP_RESPONSE_TIMEOUT, w1)
      | Answer st bs \<Rightarrow> (SSP_RESPONSE st, update_device d (\<lambda>dev. dev\<lparr>ResponseData := st # bs\<rparr>) w1))"

text \<open>The vendor library's typed commands return the status of their exchange.\<close>

definition ssp6_enable :: "env \<Rightarrow> device_ref \<Rightarrow> world \<Rightarrow> SSP_RESPONSE_ENUM \<times> world" where
  "ssp6_enable e d w = exchange e d SSP6_ENABLE w"

definition ssp6_disable :: "env \<Rightarrow> device_ref \<Rightarrow> world \<Rightarrow> SSP_RESPONSE_ENUM \<times> world" where
  "ssp6_disable e d w = exchange e d SSP6_DISABLE w"

definition ssp6_set_inhibits ::
  "env \<Rightarrow> device_ref \<Rightarrow> byte \<Rightarrow> byte \<Rightarrow> world \<Rightarrow> SSP_RESPONSE_ENUM \<times> world" where
  "ssp6_set_inhibits e d lowchannels highchannels w =
     exchange e d (SSP6_SET_INHIBITS lowchannels highchannels) w"

definition ssp6_payout ::
  "env \<Rightarrow> device_ref \<Rightarrow> 32 word \<Rightarrow> string \<Rightarrow> byte \<Rightarrow> world \<Rightarrow> SSP_RESPONSE_ENUM \<times> world" where
  "ssp6_payout e d amount cc opt w = exchange e d (SSP6_PAYOUT amount cc opt) w"

definition ssp6_host_protocol ::
  "env \<Rightarrow> device_ref \<Rightarrow> byte \<Rightarrow> world \<Rightarrow> SSP_RESPONSE_ENUM \<times> world" where
  "ssp6_host_protocol e d version w = exchange e d (SSP6_HOST_PROTOCOL version) w"

definition ssp6_run_calibration :: "env \<Rightarrow> device_ref \<Rightarrow> world \<Rightarrow> SSP_RESPONSE_ENUM \<times> world" where
  "ssp6_run_calibration e d w = exchange e d SSP6_RUN_CALIBRATION w"

subsection \<open>The daemon's own SSP commands\<close>

definition SSP_CMD_GET_FIRMWARE_VERSION :: byte where "SSP_CMD_GET_FIRMWARE_VERSION = 0x20"
definition SSP_CMD_GET_DATASET_VERSION :: byte where "SSP_CMD_GET_DATASET_VERSION = 0x21"
definition SSP_CMD_GET_ALL_LEVELS :: byte where "SSP_CMD_GET_ALL_LEVELS = 0x22"
definition SSP_CMD_SET_DENOMINATION_LEVEL :: byte where "SSP_CMD_SET_DENOMINATION_LEVEL = 0x34"
definition SSP_CMD_LAST_REJECT_NOTE :: byte where "SSP_CMD_LAST_REJECT_NOTE = 0x17"
definition SSP_CMD_SMART_EMPTY :: byte where "SSP_CMD_SMART_EMPTY = 0x52"

definition CURRENCY :: string where "CURRENCY = ''EUR''"

text \<open>\<open>CommandData[++j] = x >> (i * 8)\<close> for \<open>i < n\<close>: the low \<open>n\<close> bytes, lowest first.\<close>

definition le_bytes :: "nat \<Rightarrow> 32 word \<Rightarrow> byte list" where
  "le_bytes n x = map (\<lambda>i. ucast (drop_bit (i * 8) x)) [0..<n]"

definition mc_ssp_empty :: "env \<Rightarrow> device_ref \<Rightarrow> world \<Rightarrow> SSP_RESPONSE_ENUM \<times> world" where
  "mc_ssp_empty e d w = exchange e d (SEND_SSP_COMMAND [SSP_CMD_EMPTY e]) w"

definition mc_ssp_smart_empty :: "env \<Rightarrow> device_ref \<Rightarrow> world \<Rightarrow> SSP_RESPONSE_ENUM \<times> world" where
  "mc_ssp_smart_empty e d w = exchange e d (SEND_SSP_COMMAND [SSP_CMD_SMART_EMPTY]) w"

definition mc_ssp_set_denomination_level ::
  "env \<Rightarrow> device_ref \<Rightarrow> 32 word \<Rightarrow> 32 word \<Rightarrow> string \<Rightarrow> world \<Rightarrow> SSP_RESPONSE_ENUM \<times> world" where
  "mc_ssp_set_denomination_level e d amount level cc w =
     exchange e d
       (SEND_SSP_COMMAND
          (SSP_CMD_SET_DENOMINATION_LEVEL # le_bytes 2 level @ le_bytes 4 amount
             @ map byte_of_char (take 3 cc))) w"

definition mc_ssp_float ::
  "env \<Rightarrow> device_ref \<Rightarrow> 32 word \<Rightarrow> string \<Rightarrow> byte \<Rightarrow> world \<Rightarrow> SSP_RESPONSE_ENUM \<times> world" where
  "mc_ssp_float e d val cc opt w =
     exchange e d
       (SEND_SSP_COMMAND
          (SSP_CMD_FLOAT e # le_bytes 2 100 @ le_bytes 4 val @ map byte_of_char (take 3 cc)
             @ [opt])) w"

text \<open>\<open>mc_ssp_last_reject_note\<close> also returns what it stores through \<open>reason\<close>; on a
  timeout nothing is stored.\<close>

definition mc_ssp_last_reject_note ::
  "env \<Rightarrow> device_ref \<Rightarrow> world \<Rightarrow> fault + (SSP_RESPONSE_ENUM \<times> byte option \<times> world)" where
  "mc_ssp_last_reject_note e d w =
     (case exchange e d (SEND_SSP_COMMAND [SSP_CMD_LAST_REJECT_NOTE]) w of
        (SSP_RESPONSE_TIMEOUT, w1) \<Rightarrow> Inr (SSP_RESPONSE_TIMEOUT, None, w1)
      | (SSP_RESPONSE st, w1) \<Rightarrow>
          (case ResponseData_at (get_device d w1) 1 of
             Inl f \<Rightarrow> Inl f
           | Inr reason \<Rightarrow> Inr (SSP_RESPONSE st, Some reason, w1)))"

text \<open>
  The version commands copy \<open>n\<close> bytes \<open>ResponseData[1 .. n]\<close> into the caller's buffer and
  terminate it, when the status is OK; otherwise the buffer stays as the caller made it
  (all zero in both handlers). The result is the buffer read as a C string.
\<close>

definition get_version ::
  "env \<Rightarrow> device_ref \<Rightarrow> byte \<Rightarrow> nat \<Rightarrow> world \<Rightarrow> fault + (SSP_RESPONSE_ENUM \<times> string \<times> world)" where
  "get_version e d command n w =
     (case exchange e d (SEND_SSP_COMMAND [command]) w of
        (SSP_RESPONSE_TIMEOUT, w1) \<Rightarrow> Inr (SSP_RESPONSE_TIMEOUT, [], w1)
      | (SSP_RESPONSE st, w1) \<Rightarrow>
          if st = SSP_RESPONSE_OK e then
            (if n < length (ResponseData (get_device d w1))
             then Inr (SSP_RESPONSE st, c_str (take n (drop 1 (ResponseData (get_device d w1)))), w1)
             else Inl Out_of_bounds)
          else Inr (SSP_RESPONSE st, [], w1))"

definition mc_ssp_get_firmware_version ::
  "env \<Rightarrow> device_ref \<Rightarrow> world \<Rightarrow> fault + (SSP_RESPONSE_ENUM \<times> string \<times> world)" where
  "mc_ssp_get_firmware_version e d w = get_version e d SSP_CMD_GET_FIRMWARE_VERSION 16 w"

definition mc_ssp_get_dataset_version ::
  "env \<Rightarrow> device_ref \<Rightarrow> world \<Rightarrow> fault + (SSP_RESPONSE_ENUM \<times> string \<times> world)" where
  "mc_ssp_get_dataset_version e d w = get_version e d SSP_CMD_GET_DATASET_VERSION 8 w"

text \<open>\<open>mc_ssp_channel_security_data\<close> prints the channels' security levels on standard
  output, reading \<open>ResponseData[1]\<close> and \<open>ResponseData[2 + i]\<close> for each channel.\<close>

definition mc_ssp_channel_security_data ::
  "env \<Rightarrow> device_ref \<Rightarrow> world \<Rightarrow> fault + (SSP_RESPONSE_ENUM \<times> world)" where
  "mc_ssp_channel_security_data e d w =
     (case exchange e d (SEND_SSP_COMMAND [SSP_CMD_CHANNEL_SECURITY e]) w of
        (SSP_RESPONSE_TIMEOUT, w1) \<Rightarrow> Inr (SSP_RESPONSE_TIMEOUT, w1)
      | (SSP_RESPONSE st, w1) \<Rightarrow>
          if st = SSP_RESPONSE_OK e then
            (case ResponseData_at (get_device d w1) 1 of
               Inl f \<Rightarrow> Inl f
             | Inr numChannels \<Rightarrow>
                 if 1 + unat numChannels < length (ResponseData (get_device d w1))
                 then Inr (SSP_RESPONSE st, w1) else Inl Out_of_bounds)
          else Inr (SSP_RESPONSE st, w1))"

text \<open>
  \<open>mc_ssp_get_all_levels\<close>: counter \<open>j\<close> occupies the nine bytes from \<open>ResponseData[2 + 9 j]\<close>
  on: two of level, four of value, three of currency code. The text for \<open>*json\<close> is the
  counters' objects separated by commas; on a timeout \<open>*json\<close> is left as it was (null).
\<close>

definition le_value :: "byte list \<Rightarrow> 32 word" where
  "le_value bs = foldr (\<lambda>b acc. ucast b + push_bit 8 acc) bs 0"

definition counter_json :: "byte list \<Rightarrow> nat \<Rightarrow> fault + string" where
  \<open>counter_json rd j =
     (let bs = take 9 (drop (2 + 9 * j) rd) in
      if length bs < 9 then Inl Out_of_bounds
      else Inr (''{"value":'' @ fmt_d (le_value (take 4 (drop 2 bs)))
                @ '',"level":'' @ fmt_d (le_value (take 2 bs))
                @ '',"cc":"'' @ c_str (drop 6 bs) @ ''"}''))\<close>

fun counters_json :: "byte list \<Rightarrow> nat \<Rightarrow> nat \<Rightarrow> string \<Rightarrow> fault + string" where
  "counters_json rd numCounters 0 sb = Inr sb"
| "counters_json rd numCounters (Suc k) sb =
     (let j = numCounters - Suc k in
      case counter_json rd j of
        Inl f \<Rightarrow> Inl f
      | Inr response \<Rightarrow>
          counters_json rd numCounters k (sb @ (if j > 0 then '','' else []) @ response))"

definition mc_ssp_get_all_levels ::
  "env \<Rightarrow> device_ref \<Rightarrow> world \<Rightarrow> fault + (SSP_RESPONSE_ENUM \<times> string option \<times> world)" where
  "mc_ssp_get_all_levels e d w =
     (case exchange e d (SEND_SSP_COMMAND [SSP_CMD_GET_ALL_LEVELS]) w of
        (SSP_RESPONSE_TIMEOUT, w1) \<Rightarrow> Inr (SSP_RESPONSE_TIMEOUT, None, w1)
      | (SSP_RESPONSE st, w1) \<Rightarrow>
          (case ResponseData_at (get_device d w1) 1 of
             Inl f \<Rightarrow> Inl f
           | Inr numCounters \<Rightarrow>
               (case counters_json (ResponseData (get_device d w1)) (unat numCounters)
                       (unat numCounters) [] of
                  Inl f \<Rightarrow> Inl f
                | Inr s \<Rightarrow> Inr (SSP_RESPONSE st, Some s, w1))))"

section \<open>Replies\<close>

text \<open>\<open>struct m_command\<close>: what \<open>cbOnRequestMessage\<close> hands to a command handler. The
  pointer \<open>message\<close> is \<open>None\<close> as long as nothing has been assigned to it.\<close>

record m_command =
  message :: "string option"
  jsonMessage :: json
  command :: string
  msgId :: string
  responseMsgId :: string
  responseTopic :: string
  device :: device_ref

text \<open>\<open>replyWith\<close> takes the payload already formatted: each caller below writes out what
  its format string makes of the arguments it passes, in their order.\<close>

definition replyWith :: "string \<Rightarrow> string \<Rightarrow> world \<Rightarrow> world" where
  "replyWith topic reply w = w\<lparr>published := published w @ [(topic, reply)]\<rparr>"

definition replyOk :: "string \<Rightarrow> string \<Rightarrow> string \<Rightarrow> world \<Rightarrow> world" where
  \<open>replyOk topic rMsgId mId w =
     replyWith topic (''{"msgId":"'' @ rMsgId @ ''","correlId":"'' @ mId @ ''","result":"ok"}'') w\<close>

definition replyFailed :: "string \<Rightarrow> string \<Rightarrow> string \<Rightarrow> world \<Rightarrow> world" where
  \<open>replyFailed topic rMsgId mId w =
     replyWith topic
       (''{"msgId":"'' @ rMsgId @ ''","correlId":"'' @ mId @ ''","result":"failed"}'') w\<close>

definition replyAccepted :: "string \<Rightarrow> string \<Rightarrow> string \<Rightarrow> world \<Rightarrow> world" where
  \<open>replyAccepted topic rMsgId mId w =
     replyWith topic
       (''{"msgId":"'' @ rMsgId @ ''","correlId":"'' @ mId @ ''","accepted":"true"}'') w\<close>

section \<open>Command handlers\<close>

definition isCommand :: "string \<Rightarrow> string \<Rightarrow> bool" where
  \<open>isCommand msg cmdname = (strstr msg (''"cmd":"'' @ cmdname @ ''"'') \<noteq> None)\<close>

definition handleQuit :: "m_command \<Rightarrow> world \<Rightarrow> world" where
  "handleQuit cmd w =
     (replyOk (responseTopic cmd) (responseMsgId cmd) (msgId cmd) w)\<lparr>receivedSignal := 1\<rparr>"

definition handleEmpty :: "env \<Rightarrow> m_command \<Rightarrow> world \<Rightarrow> world" where
  "handleEmpty e cmd w =
     (let (r, w1) = mc_ssp_empty e (device cmd) w
      in replyAccepted (responseTopic cmd) (responseMsgId cmd) (msgId cmd) w1)"

definition handleSmartEmpty :: "env \<Rightarrow> m_command \<Rightarrow> world \<Rightarrow> world" where
  "handleSmartEmpty e cmd w =
     (let (r, w1) = mc_ssp_smart_empty e (device cmd) w
      in replyAccepted (responseTopic cmd) (responseMsgId cmd) (msgId cmd) w1)"

text \<open>
  \<open>handlePayout\<close> and \<open>handleFloat\<close> begin by searching the text at \<open>cmd->message\<close>; the
  search of a pointer that was never assigned is the fault \<open>Uninitialised_read\<close>.
  \<open>payout_error\<close> is the error text for the code in \<open>ResponseData[1]\<close> after a failed
  payout or float.
\<close>

definition payout_error :: "byte \<Rightarrow> string" where
  "payout_error code =
     (if code = 0x01 then ''not enough value in smart payout''
      else if code = 0x02 then ''can't pay exact amount''
      else if code = 0x03 then ''smart payout busy''
      else if code = 0x04 then ''smart payout disabled''
      else ''unknown'')"

definition amount_missing :: "m_command \<Rightarrow> world \<Rightarrow> world" where
  \<open>amount_missing cmd w =
     replyWith (responseTopic cmd)
       (''{"correlId":"'' @ responseMsgId cmd
          @ ''","error":"property 'amount' missing or not a number"}'') w\<close>

definition reply_payout_error :: "m_command \<Rightarrow> byte \<Rightarrow> world \<Rightarrow> world" where
  \<open>reply_payout_error cmd code w =
     replyWith (responseTopic cmd)
       (''{"correlId":"'' @ msgId cmd @ ''","error":"'' @ payout_error code @ ''"}'') w\<close>

definition handlePayout :: "env \<Rightarrow> m_command \<Rightarrow> world \<Rightarrow> fault + world" where
  "handlePayout e cmd w =
     (case message cmd of
        None \<Rightarrow> Inl Uninitialised_read
      | Some msg \<Rightarrow>
          let payoutOption = (if isCommand msg ''do-payout'' then SSP6_OPTION_BYTE_DO e
                              else SSP6_OPTION_BYTE_TEST e);
              jAmount = json_object_get (jsonMessage cmd) ''amount''
          in if \<not> json_is_number jAmount then Inr (amount_missing cmd w)
             else
               let amount = int_of_double (json_number_value jAmount);
                   (r, w1) = ssp6_payout e (device cmd) amount CURRENCY payoutOption w
               in if r \<noteq> SSP_RESPONSE (SSP_RESPONSE_OK e) then
                    (case ResponseData_at (get_device (device cmd) w1) 1 of
                       Inl f \<Rightarrow> Inl f
                     | Inr code \<Rightarrow> Inr (reply_payout_error cmd code w1))
                  else Inr (replyOk (responseTopic cmd) (responseMsgId cmd) (msgId cmd) w1))"

definition handleFloat :: "env \<Rightarrow> m_command \<Rightarrow> world \<Rightarrow> fault + world" where
  "handleFloat e cmd w =
     (case message cmd of
        None \<Rightarrow> Inl Uninitialised_read
      | Some msg \<Rightarrow>
          let payoutOption = (if isCommand msg ''do-float'' then SSP6_OPTION_BYTE_DO e
                              else SSP6_OPTION_BYTE_TEST e);
              jAmount = json_object_get (jsonMessage cmd) ''amount''
          in if \<not> json_is_number jAmount then Inr (amount_missing cmd w)
             else
               let amount = int_of_double (json_number_value jAmount);
                   (r, w1) = mc_ssp_float e (device cmd) amount CURRENCY payoutOption w
               in if r \<noteq> SSP_RESPONSE (SSP_RESPONSE_OK e) then
                    (case ResponseData_at (get_device (device cmd) w1) 1 of
                       Inl f \<Rightarrow> Inl f
                     | Inr code \<Rightarrow> Inr (reply_payout_error cmd code w1))
                  else Inr (replyOk (responseTopic cmd) (responseMsgId cmd) (msgId cmd) w1))"

definition channels_missing :: "m_command \<Rightarrow> world \<Rightarrow> world" where
  \<open>channels_missing cmd w =
     replyWith (responseTopic cmd)
       (''{"correlId":"'' @ responseMsgId cmd
          @ ''","error":"property 'channels' missing or not a string"}'') w\<close>

text \<open>The eight tests of \<open>handleEnableChannels\<close>, one after the other on the local
  \<open>currentChannelInhibits\<close>.\<close>

definition enable_bits :: "string \<Rightarrow> byte \<Rightarrow> byte" where
  "enable_bits channels cur =
     (let c1 = (if strstr channels ''1'' \<noteq> None then cur OR push_bit 0 1 else cur);
          c2 = (if strstr channels ''2'' \<noteq> None then c1 OR push_bit 1 1 else c1);
          c3 = (if strstr channels ''3'' \<noteq> None then c2 OR push_bit 2 1 else c2);
          c4 = (if strstr channels ''4'' \<noteq> None then c3 OR push_bit 3 1 else c3);
          c5 = (if strstr channels ''5'' \<noteq> None then c4 OR push_bit 4 1 else c4);
          c6 = (if strstr channels ''6'' \<noteq> None then c5 OR push_bit 5 1 else c5);
          c7 = (if strstr channels ''7'' \<noteq> None then c6 OR push_bit 6 1 else c6);
          c8 = (if strstr channels ''8'' \<noteq> None then c7 OR push_bit 7 1 else c7)
      in c8)"

text \<open>The eight tests of \<open>handleDisableChannels\<close> and of \<open>handleInhibitChannels\<close>, which
  clear a bit of the local mask for each digit found.\<close>

definition disable_bits :: "string \<Rightarrow> byte \<Rightarrow> byte" where
  "disable_bits channels cur =
     (let c1 = (if strstr channels ''1'' \<noteq> None then cur AND NOT (push_bit 0 1) else cur);
          c2 = (if strstr channels ''2'' \<noteq> None then c1 AND NOT (push_bit 1 1) else c1);
          c3 = (if strstr channels ''3'' \<noteq> None then c2 AND NOT (push_bit 2 1) else c2);
          c4 = (if strstr channels ''4'' \<noteq> None then c3 AND NOT (push_bit 3 1) else c3);
          c5 = (if strstr channels ''5'' \<noteq> None then c4 AND NOT (push_bit 4 1) else c4);
          c6 = (if strstr channels ''6'' \<noteq> None then c5 AND NOT (push_bit 5 1) else c5);
          c7 = (if strstr channels ''7'' \<noteq> None then c6 AND NOT (push_bit 6 1) else c6);
          c8 = (if strstr channels ''8'' \<noteq> None then c7 AND NOT (push_bit 7 1) else c7)
      in c8)"

definition handleEnableChannels :: "env \<Rightarrow> m_command \<Rightarrow> world \<Rightarrow> world" where
  "handleEnableChannels e cmd w =
     (let jChannels = json_object_get (jsonMessage cmd) ''channels''
      in if \<not> json_is_string jChannels then channels_missing cmd w
         else
           let channels = json_string_value jChannels;
               currentChannelInhibits =
                 enable_bits channels (channelInhibits (get_device (device cmd) w));
               highChannels = 0xFF;
               (r, w1) = ssp6_set_inhibits e (device cmd) currentChannelInhibits highChannels w
           in if r = SSP_RESPONSE (SSP_RESPONSE_OK e) then
                replyOk (responseTopic cmd) (responseMsgId cmd) (msgId cmd)
                  (update_device (device cmd)
                     (\<lambda>dev. dev\<lparr>channelInhibits := currentChannelInhibits\<rparr>) w1)
              else replyFailed (responseTopic cmd) (responseMsgId cmd) (msgId cmd) w1)"

definition handleDisableChannels :: "env \<Rightarrow> m_command \<Rightarrow> world \<Rightarrow> world" where
  "handleDisableChannels e cmd w =
     (let jChannels = json_object_get (jsonMessage cmd) ''channels''
      in if \<not> json_is_string jChannels then channels_missing cmd w
         else
           let channels = json_string_value jChannels;
               currentChannelInhibits =
                 disable_bits channels (channelInhibits (get_device (device cmd) w));
               highChannels = 0xFF;
               (r, w1) = ssp6_set_inhibits e (device cmd) currentChannelInhibits highChannels w
           in if r = SSP_RESPONSE (SSP_RESPONSE_OK e) then
                replyOk (responseTopic cmd) (responseMsgId cmd) (msgId cmd)
                  (update_device (device cmd)
                     (\<lambda>dev. dev\<lparr>channelInhibits := currentChannelInhibits\<rparr>) w1)
              else replyFailed (responseTopic cmd) (responseMsgId cmd) (msgId cmd) w1)"

text \<open>
  \<open>free(p)\<close> on the string of a JSON value: the block is released and the value keeps
  its pointer to it. \<open>handleInhibitChannels\<close> ends with \<open>free(channels)\<close>, where \<open>channels\<close>
  is the string that the value of the property \<open>channels\<close> owns.
\<close>

definition free_json_string :: "string \<Rightarrow> world \<Rightarrow> world" where
  "free_json_string p w = w\<lparr>frees := frees w @ [p]\<rparr>"

definition handleInhibitChannels :: "env \<Rightarrow> m_command \<Rightarrow> world \<Rightarrow> world" where
  "handleInhibitChannels e cmd w =
     (let jChannels = json_object_get (jsonMessage cmd) ''channels''
      in if \<not> json_is_string jChannels then channels_missing cmd w
         else
           let channels = json_string_value jChannels;
               lowChannels = disable_bits channels 0xFF;
               highChannels = 0xFF;
               (r, w1) = ssp6_set_inhibits e (device cmd) lowChannels highChannels w;
               w2 = (if r = SSP_RESPONSE (SSP_RESPONSE_OK e)
                     then replyOk (responseTopic cmd) (responseMsgId cmd) (msgId cmd) w1
                     else replyFailed (responseTopic cmd) (responseMsgId cmd) (msgId cmd) w1)
           in free_json_string channels w2)"

definition handleEnable :: "env \<Rightarrow> m_command \<Rightarrow> world \<Rightarrow> world" where
  "handleEnable e cmd w =
     (let (r, w1) = ssp6_enable e (device cmd) w
      in replyAccepted (responseTopic cmd) (responseMsgId cmd) (msgId cmd) w1)"

definition handleDisable :: "env \<Rightarrow> m_command \<Rightarrow> world \<Rightarrow> world" where
  "handleDisable e cmd w =
     (let (r, w1) = ssp6_disable e (device cmd) w
      in replyAccepted (responseTopic cmd) (responseMsgId cmd) (msgId cmd) w1)"

text \<open>In \<open>handleSetDenominationLevels\<close> the local \<open>amount\<close> is read from the property
  \<open>level\<close> and the local \<open>level\<close> from the property \<open>amount\<close>, as in the source.\<close>

definition handleSetDenominationLevels :: "env \<Rightarrow> m_command \<Rightarrow> world \<Rightarrow> world" where
  "handleSetDenominationLevels e cmd w =
     (let jLevel = json_object_get (jsonMessage cmd) ''level'';
          jAmount = json_object_get (jsonMessage cmd) ''amount'';
          amount = int_of_double (json_number_value jLevel);
          level = int_of_double (json_number_value jAmount);
          w1 = (if 0 <s level
                then snd (mc_ssp_set_denomination_level e (device cmd) amount 0 CURRENCY w)
                else w);
          (r, w2) = mc_ssp_set_denomination_level e (device cmd) amount level CURRENCY w1
      in if r = SSP_RESPONSE (SSP_RESPONSE_OK e)
         then replyOk (responseTopic cmd) (responseMsgId cmd) (msgId cmd) w2
         else replyFailed (responseTopic cmd) (responseMsgId cmd) (msgId cmd) w2)"

text \<open>A null \<open>char *\<close> handed to \<open>%s\<close> prints as \<open>(null)\<close> (glibc).\<close>

definition handleGetAllLevels :: "env \<Rightarrow> m_command \<Rightarrow> world \<Rightarrow> fault + world" where
  \<open>handleGetAllLevels e cmd w =
     (case mc_ssp_get_all_levels e (device cmd) w of
        Inl f \<Rightarrow> Inl f
      | Inr (r, js, w1) \<Rightarrow>
          Inr (replyWith (responseTopic cmd)
                 (''{"correlId":"'' @ msgId cmd @ ''","levels":[''
                    @ (case js of None \<Rightarrow> ''(null)'' | Some s \<Rightarrow> s) @ '']}'') w1))\<close>

definition handleGetFirmwareVersion :: "env \<Rightarrow> m_command \<Rightarrow> world \<Rightarrow> fault + world" where
  \<open>handleGetFirmwareVersion e cmd w =
     (case mc_ssp_get_firmware_version e (device cmd) w of
        Inl f \<Rightarrow> Inl f
      | Inr (r, firmwareVersion, w1) \<Rightarrow>
          Inr (replyWith (responseTopic cmd)
                 (''{"correlId":"'' @ msgId cmd @ ''","version":"'' @ firmwareVersion @ ''"]}'')
                 w1))\<close>

definition handleGetDatasetVersion :: "env \<Rightarrow> m_command \<Rightarrow> world \<Rightarrow> fault + world" where
  \<open>handleGetDatasetVersion e cmd w =
     (case mc_ssp_get_dataset_version e (device cmd) w of
        Inl f \<Rightarrow> Inl f
      | Inr (r, datasetVersion, w1) \<Rightarrow>
          Inr (replyWith (responseTopic cmd)
                 (''{"correlId":"'' @ msgId cmd @ ''","version":"'' @ datasetVersion @ ''"]}'')
                 w1))\<close>

definition reject_reason :: "byte \<Rightarrow> string option" where
  "reject_reason code =
     (if code = 0x00 then Some ''note accepted''
      else if code = 0x01 then Some ''note length incorrect''
      else if code = 0x02 then Some ''undisclosed (reject reason 2)''
      else if code = 0x03 then Some ''undisclosed (reject reason 3)''
      else if code = 0x04 then Some ''undisclosed (reject reason 4)''
      else if code = 0x05 then Some ''undisclosed (reject reason 5)''
      else if code = 0x06 then Some ''channel inhibited''
      else if code = 0x07 then Some ''second note inserted''
      else if code = 0x08 then Some ''undisclosed (reject reason 8)''
      else if code = 0x09 then Some ''note recognised in more than one channel''
      else if code = 0x0A then Some ''undisclosed (reject reason 10)''
      else if code = 0x0B then Some ''note too long''
      else if code = 0x0C then Some ''undisclosed (reject reason 12)''
      else if code = 0x0D then Some ''mechanism slow/stalled''
      else if code = 0x0E then Some ''strimming attempt detected''
      else if code = 0x0F then Some ''fraud channel reject''
      else if code = 0x10 then Some ''no notes inserted''
      else if code = 0x11 then Some ''peak detect fail''
      else if code = 0x12 then Some ''twisted note detected''
      else if code = 0x13 then Some ''escrow time-out''
      else if code = 0x14 then Some ''bar code scan fail''
      else if code = 0x15 then Some ''rear sensor 2 fail''
      else if code = 0x16 then Some ''slot fail 1''
      else if code = 0x17 then Some ''slot fail 2''
      else if code = 0x18 then Some ''lens over-sample''
      else if code = 0x19 then Some ''width detect fail''
      else if code = 0x1A then Some ''short note detected''
      else if code = 0x1B then Some ''note payout''
      else if code = 0x1C then Some ''unable to stack note''
      else None)"

text \<open>The reason code, an \<open>unsigned char\<close>, is printed through \<open>%ld\<close>: its value in decimal.\<close>

definition handleLastRejectNote :: "env \<Rightarrow> m_command \<Rightarrow> world \<Rightarrow> fault + world" where
  \<open>handleLastRejectNote e cmd w =
     (case mc_ssp_last_reject_note e (device cmd) w of
        Inl f \<Rightarrow> Inl f
      | Inr (r, reasonCode, w1) \<Rightarrow>
          (case (r = SSP_RESPONSE (SSP_RESPONSE_OK e), reasonCode) of
             (True, Some code) \<Rightarrow>
               Inr (replyWith (responseTopic cmd)
                      (''{"correlId":"'' @ msgId cmd @ ''","reason":"''
                         @ (case reject_reason code of Some reason \<Rightarrow> reason
                            | None \<Rightarrow> ''undefined'')
                         @ ''","code":'' @ decimal (unat code) @ ''}'') w1)
           | _ \<Rightarrow> Inr (replyWith (responseTopic cmd) ''{"timeout":"last reject note"}'' w1)))\<close>

definition handleChannelSecurityData :: "env \<Rightarrow> m_command \<Rightarrow> world \<Rightarrow> fault + world" where
  "handleChannelSecurityData e cmd w =
     (case mc_ssp_channel_security_data e (device cmd) w of
        Inl f \<Rightarrow> Inl f
      | Inr (r, w1) \<Rightarrow> Inr w1)"

section \<open>The request callback\<close>

text \<open>
  The chain of \<open>isCommand\<close> tests at the end of \<open>cbOnRequestMessage\<close> picks the branch to
  run from the text of the message; \<open>select_handler\<close> is the chain, \<open>run_handler\<close> the
  bodies of its branches.
\<close>

datatype handler =
    HandleEmpty | HandleSmartEmpty | HandleEnable | HandleDisable | HandleEnableChannels
  | HandleDisableChannels | HandleInhibitChannels | HandleFloat | HandlePayout
  | HandleGetFirmwareVersion | HandleGetDatasetVersion | HandleChannelSecurityData
  | HandleGetAllLevels | HandleSetDenominationLevels | HandleLastRejectNote | UnknownCommand

definition select_handler :: "string \<Rightarrow> handler" where
  "select_handler msg =
     (if isCommand msg ''empty'' then HandleEmpty
      else if isCommand msg ''smart-empty'' then HandleSmartEmpty
      else if isCommand msg ''enable'' then HandleEnable
      else if isCommand msg ''disable'' then HandleDisable
      else if isCommand msg ''enable-channels'' then HandleEnableChannels
      else if isCommand msg ''disable-channels'' then HandleDisableChannels
      else if isCommand msg ''inhibit-channels'' then HandleInhibitChannels
      else if isCommand msg ''test-float'' \<or> isCommand msg ''do-float'' then HandleFloat
      else if isCommand msg ''test-payout'' \<or> isCommand msg ''do-payout'' then HandlePayout
      else if isCommand msg ''get-firmware-version'' then HandleGetFirmwareVersion
      else if isCommand msg ''get-dataset-version'' then HandleGetDatasetVersion
      else if isCommand msg ''channel-security-data'' then HandleChannelSecurityData
      else if isCommand msg ''get-all-levels'' then HandleGetAllLevels
      else if isCommand msg ''set-denomination-level'' then HandleSetDenominationLevels
      else if isCommand msg ''last-reject-note'' then HandleLastRejectNote
      else UnknownCommand)"

text \<open>The reply of the last branch is given three arguments for the two \<open>%s\<close> of its
  format: \<open>cmd.msgId\<close>, the callback's local \<open>message\<close> and \<open>cmd.command\<close>.\<close>

definition unknown_command :: "string \<Rightarrow> m_command \<Rightarrow> world \<Rightarrow> world" where
  \<open>unknown_command msg cmd w =
     replyWith (responseTopic cmd)
       (''{"correlId":"'' @ msgId cmd @ ''","error":"unknown command","cmd":"''
          @ msg @ ''"}'') w\<close>

fun run_handler ::
  "env \<Rightarrow> handler \<Rightarrow> string \<Rightarrow> m_command \<Rightarrow> world \<Rightarrow> fault + world" where
  "run_handler e HandleEmpty msg cmd w = Inr (handleEmpty e cmd w)"
| "run_handler e HandleSmartEmpty msg cmd w = Inr (handleSmartEmpty e cmd w)"
| "run_handler e HandleEnable msg cmd w = Inr (handleEnable e cmd w)"
| "run_handler e HandleDisable msg cmd w = Inr (handleDisable e cmd w)"
| "run_handler e HandleEnableChannels msg cmd w = Inr (handleEnableChannels e cmd w)"
| "run_handler e HandleDisableChannels msg cmd w = Inr (handleDisableChannels e cmd w)"
| "run_handler e HandleInhibitChannels msg cmd w = Inr (handleInhibitChannels e cmd w)"
| "run_handler e HandleFloat msg cmd w = handleFloat e cmd w"
| "run_handler e HandlePayout msg cmd w = handlePayout e cmd w"
| "run_handler e HandleGetFirmwareVersion msg cmd w = handleGetFirmwareVersion e cmd w"
| "run_handler e HandleGetDatasetVersion msg cmd w = handleGetDatasetVersion e cmd w"
| "run_handler e HandleChannelSecurityData msg cmd w = handleChannelSecurityData e cmd w"
| "run_handler e HandleGetAllLevels msg cmd w = handleGetAllLevels e cmd w"
| "run_handler e HandleSetDenominationLevels msg cmd w = Inr (handleSetDenominationLevels e cmd w)"
| "run_handler e HandleLastRejectNote msg cmd w = handleLastRejectNote e cmd w"
| "run_handler e UnknownCommand msg cmd w = Inr (unknown_command msg cmd w)"

text \<open>
  A reply of the subscribing connection: an array of strings, or something else.
  \<open>request\<close> is the part of \<open>cbOnRequestMessage\<close> after the topic has chosen the device
  and the response topic; \<open>uuid\<close> is the text of the identifier that
  \<open>uuid_generate_time_safe\<close> and \<open>uuid_unparse_lower\<close> produce for this message. The
  callback fills every field of \<open>cmd\<close> that a handler reads except \<open>message\<close>, to which it
  never assigns.
\<close>

datatype redisReply = REDIS_REPLY_ARRAY "string list" | REDIS_REPLY_OTHER

text \<open>
  \<open>json_decref\<close> on the value that \<open>json_loads\<close> returned releases the value and every
  string it owns. \<open>loaded\<close> is \<open>frees\<close> as it was when the value was loaded: a string of
  the value released since then is released a second time.
\<close>

definition json_decref :: "string list \<Rightarrow> world \<Rightarrow> fault + world" where
  "json_decref loaded w = (if frees w = loaded then Inr w else Inl Double_free)"

definition request ::
  "env \<Rightarrow> string \<Rightarrow> device_ref \<Rightarrow> string \<Rightarrow> string \<Rightarrow> world \<Rightarrow> fault + world" where
  \<open>request e uuid dev rTopic msg w =
     (case json_loads e msg of
        Inl (Json_error etext eline) \<Rightarrow>
          Inr (replyWith rTopic
                 (''{"error":"could not parse json","reason":"'' @ etext @ ''","line":''
                    @ fmt_int eline @ ''}'') w)
      | Inr jMessage \<Rightarrow>
          let jMsgId = json_object_get jMessage ''msgId'' in
          if \<not> json_is_string jMsgId then
            json_decref (frees w)
              (replyWith rTopic ''{"error":"property 'msgId' missing or not a string"}'' w)
          else
            let mId = json_string_value jMsgId;
                jCmd = json_object_get jMessage ''cmd''
            in if \<not> json_is_string jCmd then
                 json_decref (frees w)
                   (replyWith rTopic
                      (''{"correlId":"'' @ mId
                         @ ''","error":"property 'cmd' missing or not a string"}'') w)
               else
                 let cmd = \<lparr>message = None, jsonMessage = jMessage,
                            command = json_string_value jCmd, msgId = mId,
                            responseMsgId = uuid, responseTopic = rTopic, device = dev\<rparr>;
                     w1 = (if isCommand msg ''quit'' then handleQuit cmd w else w)
                 in case (if \<not> deviceAvailable w1 then
                            Inr (replyWith rTopic
                                   (''{"correlId":"'' @ mId
                                      @ ''","error":"hardware unavailable"}'') w1)
                          else run_handler e (select_handler msg) msg cmd w1) of
                      Inl f \<Rightarrow> Inl f
                    | Inr w2 \<Rightarrow> json_decref (frees w) w2)\<close>

definition cbOnRequestMessage ::
  "env \<Rightarrow> string \<Rightarrow> redisReply option \<Rightarrow> world \<Rightarrow> fault + world" where
  "cbOnRequestMessage e uuid r w =
     (case r of
        None \<Rightarrow> Inr w
      | Some REDIS_REPLY_OTHER \<Rightarrow> Inr w
      | Some (REDIS_REPLY_ARRAY element) \<Rightarrow>
          if length element = 3 then
            (if element ! 0 \<noteq> ''subscribe'' then
               (let topic = element ! 1 in
                if topic = ''validator-request''
                then request e uuid Validator ''validator-response'' (element ! 2) w
                else if topic = ''hopper-request''
                then request e uuid Hopper ''hopper-response'' (element ! 2) w
                else Inr w)
             else Inr w)
          else Inr w)"

section \<open>Poll events\<close>

record SSP_POLL_EVENT6 =
  event :: byte
  data1 :: "64 word"
  data2 :: "64 word"
  cc :: string

definition publishHopperEvent :: "string \<Rightarrow> world \<Rightarrow> world" where
  "publishHopperEvent reply w = w\<lparr>published := published w @ [(''hopper-event'', reply)]\<rparr>"

definition publishValidatorEvent :: "string \<Rightarrow> world \<Rightarrow> world" where
  "publishValidatorEvent reply w = w\<lparr>published := published w @ [(''validator-event'', reply)]\<rparr>"

text \<open>The texts of the inner \<open>switch\<close> on the calibration code; it has no \<open>default\<close>.\<close>

definition calibration_fail :: "CALIBRATION_CODE \<Rightarrow> string option" where
  \<open>calibration_fail c =
     (case c of
        NO_FAILUE \<Rightarrow> Some ''{"event":"calibration fail","error":"no error"}''
      | SENSOR_FLAP \<Rightarrow> Some ''{"event":"calibration fail","error":"sensor flap"}''
      | SENSOR_EXIT \<Rightarrow> Some ''{"event":"calibration fail","error":"sensor exit"}''
      | SENSOR_COIL1 \<Rightarrow> Some ''{"event":"calibration fail","error":"sensor coil 1"}''
      | SENSOR_COIL2 \<Rightarrow> Some ''{"event":"calibration fail","error":"sensor coil 2"}''
      | NOT_INITIALISED \<Rightarrow> Some ''{"event":"calibration fail","error":"not initialized"}''
      | CHECKSUM_ERROR \<Rightarrow> Some ''{"event":"calibration fail","error":"checksum error"}''
      | COMMAND_RECAL \<Rightarrow> Some ''{"event":"recalibrating"}''
      | CALIBRATION_OTHER \<Rightarrow> None)\<close>

definition on_calibration_fail ::
  "env \<Rightarrow> device_ref \<Rightarrow> (string \<Rightarrow> world \<Rightarrow> world) \<Rightarrow> 64 word \<Rightarrow> world \<Rightarrow> world" where
  "on_calibration_fail e d publish code w =
     (case calibration_fail (calibration_code e code) of
        None \<Rightarrow> w
      | Some reply \<Rightarrow>
          (let w1 = publish reply w in
           if calibration_code e code = COMMAND_RECAL then snd (ssp6_run_calibration e d w1)
           else w1))"

text \<open>\<open>case SSP_POLL_RESET\<close>: the event is published, then the host protocol version is
  set again; the process exits with status 3 when that fails.\<close>

definition on_reset ::
  "env \<Rightarrow> device_ref \<Rightarrow> (string \<Rightarrow> world \<Rightarrow> world) \<Rightarrow> world \<Rightarrow> fault + world" where
  \<open>on_reset e d publish w =
     (let (r, w1) = ssp6_host_protocol e d 0x06 (publish ''{"event":"unit reset"}'' w)
      in if r \<noteq> SSP_RESPONSE (SSP_RESPONSE_OK e) then Inl (Exit 3) else Inr w1)\<close>

definition incomplete :: "string \<Rightarrow> SSP_POLL_EVENT6 \<Rightarrow> string" where
  \<open>incomplete what ev =
     ''{"event":"incomplete '' @ what @ ''","dispensed":'' @ fmt_ld (data1 ev)
       @ '',"requested":'' @ fmt_ld (data2 ev) @ '',"cc":"'' @ cc ev @ ''"}''\<close>

definition amount_cc :: "string \<Rightarrow> SSP_POLL_EVENT6 \<Rightarrow> string" where
  \<open>amount_cc what ev =
     ''{"event":"'' @ what @ ''","amount":'' @ fmt_ld (data1 ev) @ '',"cc":"'' @ cc ev @ ''"}''\<close>

text \<open>The body of the loop of \<open>hopperEventHandler\<close> for one event.\<close>

definition hopperEvent :: "env \<Rightarrow> device_ref \<Rightarrow> SSP_POLL_EVENT6 \<Rightarrow> world \<Rightarrow> fault + world" where
  \<open>hopperEvent e d ev w =
     (case poll_code e (event ev) of
        SSP_POLL_RESET \<Rightarrow> on_reset e d publishHopperEvent w
      | SSP_POLL_READ \<Rightarrow>
          if 0 < data1 ev
          then Inr (publishHopperEvent
                      (''{"event":"read","channel":'' @ fmt_ld (data1 ev) @ ''}'') w)
          else Inr (publishHopperEvent ''{"event":"reading"}'' w)
      | SSP_POLL_DISPENSING \<Rightarrow>
          Inr (publishHopperEvent
                 (''{"event":"dispensing","amount":'' @ fmt_ld (data1 ev) @ ''}'') w)
      | SSP_POLL_DISPENSED \<Rightarrow>
          Inr (publishHopperEvent
                 (''{"event":"dispensed","amount":'' @ fmt_ld (data1 ev) @ ''}'') w)
      | SSP_POLL_FLOATING \<Rightarrow> Inr (publishHopperEvent (amount_cc ''floating'' ev) w)
      | SSP_POLL_FLOATED \<Rightarrow> Inr (publishHopperEvent (amount_cc ''floated'' ev) w)
      | SSP_POLL_CASHBOX_PAID \<Rightarrow> Inr (publishHopperEvent (amount_cc ''cashbox paid'' ev) w)
      | SSP_POLL_JAMMED \<Rightarrow> Inr (publishHopperEvent ''{"event":"jammed"}'' w)
      | SSP_POLL_FRAUD_ATTEMPT \<Rightarrow> Inr (publishHopperEvent ''{"event":"fraud attempt"}'' w)
      | SSP_POLL_COIN_CREDIT \<Rightarrow> Inr (publishHopperEvent (amount_cc ''coin credit'' ev) w)
      | SSP_POLL_EMPTY \<Rightarrow> Inr (publishHopperEvent ''{"event":"empty"}'' w)
      | SSP_POLL_EMPTYING \<Rightarrow> Inr (publishHopperEvent ''{"event":"emptying"}'' w)
      | SSP_POLL_SMART_EMPTYING \<Rightarrow>
          Inr (publishHopperEvent (amount_cc ''smart emptying'' ev) w)
      | SSP_POLL_SMART_EMPTIED \<Rightarrow> Inr (publishHopperEvent (amount_cc ''smart emptied'' ev) w)
      | SSP_POLL_CREDIT \<Rightarrow>
          Inr (publishHopperEvent
                 (''{"event":"credit","channel":'' @ fmt_ld (data1 ev) @ '',"cc":"'' @ cc ev
                    @ ''"}'') w)
      | SSP_POLL_INCOMPLETE_PAYOUT \<Rightarrow> Inr (publishHopperEvent (incomplete ''payout'' ev) w)
      | SSP_POLL_INCOMPLETE_FLOAT \<Rightarrow> Inr (publishHopperEvent (incomplete ''float'' ev) w)
      | SSP_POLL_DISABLED \<Rightarrow> Inr (publishHopperEvent ''{"event":"disabled"}'' w)
      | SSP_POLL_CALIBRATION_FAIL \<Rightarrow>
          Inr (on_calibration_fail e d publishHopperEvent (data1 ev) w)
      | _ \<Rightarrow>
          Inr (publishHopperEvent
                 (''{"event":"unknown","id":"0x'' @ fmt_02X (event ev) @ ''"}'') w))\<close>

fun hopperEventHandler ::
  "env \<Rightarrow> device_ref \<Rightarrow> SSP_POLL_EVENT6 list \<Rightarrow> world \<Rightarrow> fault + world" where
  "hopperEventHandler e d [] w = Inr w"
| "hopperEventHandler e d (ev # evs) w =
     (case hopperEvent e d ev w of
        Inl f \<Rightarrow> Inl f
      | Inr w1 \<Rightarrow> hopperEventHandler e d evs w1)"

text \<open>
  \<open>device->sspSetupReq.ChannelData[data1 - 1].value * 100\<close>: the index is computed in
  \<open>unsigned long\<close>, the product in \<open>unsigned int\<close>, and the result widened to the
  \<open>unsigned long amount\<close>.
\<close>

definition channel_amount :: "m_device \<Rightarrow> 64 word \<Rightarrow> fault + 64 word" where
  "channel_amount dev d1 =
     (let i = unat (d1 - 1) in
      if i < length (ChannelData dev)
      then Inr (ucast (channel_value (ChannelData dev ! i) * 100))
      else Inl Out_of_bounds)"

definition amount_channel :: "string \<Rightarrow> 64 word \<Rightarrow> 64 word \<Rightarrow> string" where
  \<open>amount_channel what amount d1 =
     ''{"event":"'' @ what @ ''","amount":'' @ fmt_ld amount @ '',"channel":'' @ fmt_ld d1
       @ ''}''\<close>

text \<open>The body of the loop of \<open>validatorEventHandler\<close> for one event.\<close>

definition validatorEvent ::
  "env \<Rightarrow> device_ref \<Rightarrow> SSP_POLL_EVENT6 \<Rightarrow> world \<Rightarrow> fault + world" where
  \<open>validatorEvent e d ev w =
     (case poll_code e (event ev) of
        SSP_POLL_RESET \<Rightarrow> on_reset e d publishValidatorEvent w
      | SSP_POLL_READ \<Rightarrow>
          if 0 < data1 ev then
            (case channel_amount (get_device d w) (data1 ev) of
               Inl f \<Rightarrow> Inl f
             | Inr amount \<Rightarrow>
                 Inr (publishValidatorEvent (amount_channel ''read'' amount (data1 ev)) w))
          else Inr (publishValidatorEvent ''{"event":"reading"}'' w)
      | SSP_POLL_EMPTY \<Rightarrow> Inr (publishValidatorEvent ''{"event":"empty"}'' w)
      | SSP_POLL_EMPTYING \<Rightarrow> Inr (publishValidatorEvent ''{"event":"emptying"}'' w)
      | SSP_POLL_SMART_EMPTYING \<Rightarrow>
          Inr (publishValidatorEvent ''{"event":"smart emptying"}'' w)
      | SSP_POLL_CREDIT \<Rightarrow>
          (case channel_amount (get_device d w) (data1 ev) of
             Inl f \<Rightarrow> Inl f
           | Inr amount \<Rightarrow>
               Inr (publishValidatorEvent (amount_channel ''credit'' amount (data1 ev)) w))
      | SSP_POLL_INCOMPLETE_PAYOUT \<Rightarrow>
          Inr (publishValidatorEvent (incomplete ''payout'' ev) w)
      | SSP_POLL_INCOMPLETE_FLOAT \<Rightarrow> Inr (publishValidatorEvent (incomplete ''float'' ev) w)
      | SSP_POLL_REJECTING \<Rightarrow> Inr (publishValidatorEvent ''{"event":"rejecting"}'' w)
      | SSP_POLL_REJECTED \<Rightarrow> Inr (publishValidatorEvent ''{"event":"rejected"}'' w)
      | SSP_POLL_STACKING \<Rightarrow> Inr (publishValidatorEvent ''{"event":"stacking"}'' w)
      | SSP_POLL_STORED \<Rightarrow> Inr (publishValidatorEvent ''{"event":"stored"}'' w)
      | SSP_POLL_STACKED \<Rightarrow> Inr (publishValidatorEvent ''{"event":"stacked"}'' w)
      | SSP_POLL_SAFE_JAM \<Rightarrow> Inr (publishValidatorEvent ''{"event":"safe jam"}'' w)
      | SSP_POLL_UNSAFE_JAM \<Rightarrow> Inr (publishValidatorEvent ''{"event":"unsafe jam"}'' w)
      | SSP_POLL_DISABLED \<Rightarrow> Inr (publishValidatorEvent ''{"event":"disabled"}'' w)
      | SSP_POLL_FRAUD_ATTEMPT \<Rightarrow>
          Inr (publishValidatorEvent
                 (''{"event":"fraud attempt","dispensed":'' @ fmt_ld (data1 ev) @ ''}'') w)
      | SSP_POLL_STACKER_FULL \<Rightarrow> Inr (publishValidatorEvent ''{"event":"stacker full"}'' w)
      | SSP_POLL_CASH_BOX_REMOVED \<Rightarrow>
          Inr (publishValidatorEvent ''{"event":"cashbox removed"}'' w)
      | SSP_POLL_CASH_BOX_REPLACED \<Rightarrow>
          Inr (publishValidatorEvent ''{"event":"cashbox replaced"}'' w)
      | SSP_POLL_CLEARED_FROM_FRONT \<Rightarrow>
          Inr (publishValidatorEvent ''{"event":"cleared from front"}'' w)
      | SSP_POLL_CLEARED_INTO_CASHBOX \<Rightarrow>
          Inr (publishValidatorEvent ''{"event":"cleared into cashbox"}'' w)
      | SSP_POLL_CALIBRATION_FAIL \<Rightarrow>
          Inr (on_calibration_fail e d publishValidatorEvent (data1 ev) w)
      | _ \<Rightarrow>
          Inr (publishValidatorEvent
                 (''{"event":"unknown","id":"0x'' @ fmt_02X (event ev) @ ''"}'') w))\<close>

fun validatorEventHandler ::
  "env \<Rightarrow> device_ref \<Rightarrow> SSP_POLL_EVENT6 list \<Rightarrow> world \<Rightarrow> fault + world" where
  "validatorEventHandler e d [] w = Inr w"
| "validatorEventHandler e d (ev # evs) w =
     (case validatorEvent e d ev w of
        Inl f \<Rightarrow> Inl f
      | Inr w1 \<Rightarrow> validatorEventHandler e d evs w1)"

section \<open>Notions of the specification\<close>

text \<open>
  The mask of a channels string: bit \<open>k - 1\<close> is set for each digit \<open>k\<close> from 1 to 8 that
  occurs in the string.
\<close>

definition requested_mask :: "string \<Rightarrow> byte" where
  "requested_mask channels =
     foldr (\<lambda>k m. if digit_char k \<in> set channels then m OR push_bit (k - 1) 1 else m) [1..<9] 0"

text \<open>The wire call \<open>set_inhibits(low, high)\<close> made in state \<open>w\<close> returns OK.\<close>

definition set_inhibits_ok :: "env \<Rightarrow> device_ref \<Rightarrow> byte \<Rightarrow> byte \<Rightarrow> world \<Rightarrow> bool" where
  "set_inhibits_ok e d low high w =
     (fst (ssp6_set_inhibits e d low high w) = SSP_RESPONSE (SSP_RESPONSE_OK e))"

text \<open>
  A condition every JSON text meets: outside its strings the brackets are balanced. The
  scan keeps the open brackets on a stack and skips the character after a backslash
  inside a string.
\<close>

datatype scan_state = Outside | In_string | After_backslash

fun brackets :: "scan_state \<Rightarrow> string \<Rightarrow> string \<Rightarrow> bool" where
  "brackets st opened [] = (st = Outside \<and> opened = [])"
| "brackets Outside opened (c # cs) =
     (if c = CHR 0x22 then brackets In_string opened cs
      else if c = CHR ''{'' \<or> c = CHR ''['' then brackets Outside (c # opened) cs
      else if c = CHR ''}'' then
        (case opened of [] \<Rightarrow> False | b # rest \<Rightarrow> b = CHR ''{'' \<and> brackets Outside rest cs)
      else if c = CHR '']'' then
        (case opened of [] \<Rightarrow> False | b # rest \<Rightarrow> b = CHR ''['' \<and> brackets Outside rest cs)
      else brackets Outside opened cs)"
| "brackets In_string opened (c # cs) =
     (if c = CHR 0x5C then brackets After_backslash opened cs
      else if c = CHR 0x22 then brackets Outside opened cs
      else brackets In_string opened cs)"
| "brackets After_backslash opened (c # cs) = brackets In_string opened cs"

definition json_brackets_balanced :: "string \<Rightarrow> bool" where
  "json_brackets_balanced s = brackets Outside [] s"

text \<open>A message as the subscribing connection delivers it to \<open>cbOnRequestMessage\<close>.\<close>

definition delivered :: "string \<Rightarrow> string \<Rightarrow> redisReply option" where
  "delivered topic msg = Some (REDIS_REPLY_ARRAY [''message'', topic, msg])"

section \<open>Scenarios\<close>

text \<open>
  A concrete environment for the scenarios: the decoder's results on the scenarios'
  messages, a line on which every exchange is answered OK, and the values the SSP manual
  gives to the constants.
\<close>

definition envelope :: "string \<Rightarrow> string \<Rightarrow> json" where
  "envelope mId c = JObject [(''msgId'', JString mId), (''cmd'', JString c)]"

definition msg_quit :: string where
  \<open>msg_quit = ''{"msgId":"A","cmd":"quit"}''\<close>

definition msg_payout :: string where
  \<open>msg_payout = ''{"msgId":"C","cmd":"do-payout"}''\<close>

definition msg_levitate :: string where
  \<open>msg_levitate = ''{"msgId":"D","cmd":"levitate"}''\<close>

definition msg_security :: string where
  \<open>msg_security = ''{"msgId":"S","cmd":"channel-security-data"}''\<close>

definition msg_firmware :: string where
  \<open>msg_firmware = ''{"msgId":"V","cmd":"get-firmware-version"}''\<close>

definition msg_dataset :: string where
  \<open>msg_dataset = ''{"msgId":"W","cmd":"get-dataset-version"}''\<close>

definition msg_enable_channels :: string where
  \<open>msg_enable_channels = ''{"msgId":"B","cmd":"enable-channels","channels":"135"}''\<close>

definition msg_enable_channels_spaced :: string where
  \<open>msg_enable_channels_spaced =
     ''{"msgId":"B", "cmd": "enable-channels", "channels": "135"}''\<close>

definition msg_disable_channels_spaced :: string where
  \<open>msg_disable_channels_spaced =
     ''{"msgId":"B", "cmd": "disable-channels", "channels": "135"}''\<close>

definition msg_disable_channels :: string where
  \<open>msg_disable_channels = ''{"msgId":"B","cmd":"disable-channels","channels":"135"}''\<close>

definition msg_inhibit_channels :: string where
  \<open>msg_inhibit_channels = ''{"msgId":"B","cmd":"inhibit-channels","channels":"135"}''\<close>

definition msg_channels_missing :: string where
  \<open>msg_channels_missing = ''{"msgId":"B","cmd":"enable-channels"}''\<close>

definition msg_enable :: string where
  \<open>msg_enable = ''{"msgId":"E","cmd":"enable"}''\<close>

definition msg_enable_spaced :: string where
  \<open>msg_enable_spaced = ''{"msgId":"E", "cmd": "enable"}''\<close>

definition msg_enable_nested :: string where
  \<open>msg_enable_nested = ''{"msgId":"E","cmd":"enable","x":{"cmd":"empty"}}''\<close>

definition json_enable_nested :: json where
  "json_enable_nested =
     JObject [(''msgId'', JString ''E''), (''cmd'', JString ''enable''),
              (''x'', JObject [(''cmd'', JString ''empty'')])]"

definition json_set_level :: json where
  "json_set_level =
     JObject [(''msgId'', JString ''L''), (''cmd'', JString ''set-denomination-level''),
              (''level'', JInteger 5), (''amount'', JInteger 200)]"

definition json_channels :: "string \<Rightarrow> string \<Rightarrow> json" where
  "json_channels c channels =
     JObject [(''msgId'', JString ''B''), (''cmd'', JString c), (''channels'', JString channels)]"

definition scenario_loads :: "string \<Rightarrow> json_error_t + json" where
  "scenario_loads msg =
     (if msg = msg_quit then Inr (envelope ''A'' ''quit'')
      else if msg = msg_payout then Inr (envelope ''C'' ''do-payout'')
      else if msg = msg_levitate then Inr (envelope ''D'' ''levitate'')
      else if msg = msg_security then Inr (envelope ''S'' ''channel-security-data'')
      else if msg = msg_firmware then Inr (envelope ''V'' ''get-firmware-version'')
      else if msg = msg_dataset then Inr (envelope ''W'' ''get-dataset-version'')
      else if msg = msg_enable then Inr (envelope ''E'' ''enable'')
      else if msg = msg_enable_spaced then Inr (envelope ''E'' ''enable'')
      else if msg = msg_enable_nested then Inr json_enable_nested
      else if msg = msg_enable_channels then Inr (json_channels ''enable-channels'' ''135'')
      else if msg = msg_enable_channels_spaced
        then Inr (json_channels ''enable-channels'' ''135'')
      else if msg = msg_disable_channels_spaced
        then Inr (json_channels ''disable-channels'' ''135'')
      else if msg = msg_inhibit_channels then Inr (json_channels ''inhibit-channels'' ''135'')
      else if msg = msg_channels_missing then Inr (envelope ''B'' ''enable-channels'')
      else if msg = msg_disable_channels then Inr (json_channels ''disable-channels'' ''135'')
      else Inl (Json_error ''not a message of the scenarios'' 1))"

definition firmware_bytes :: "byte list" where
  "firmware_bytes = map byte_of_char ''NV02004141498000''"

definition dataset_bytes :: "byte list" where
  "dataset_bytes = map byte_of_char ''EUR01610''"

definition scenario_transport :: "(device_ref \<times> ssp_call) list \<Rightarrow> ssp_answer" where
  "scenario_transport exchanges =
     (if exchanges = [] then No_answer
      else if snd (last exchanges) = SEND_SSP_COMMAND [SSP_CMD_GET_FIRMWARE_VERSION]
        then Answer 0xF0 firmware_bytes
      else if snd (last exchanges) = SEND_SSP_COMMAND [SSP_CMD_GET_DATASET_VERSION]
        then Answer 0xF0 dataset_bytes
      else if snd (last exchanges) = SEND_SSP_COMMAND [0x0F] then Answer 0xF0 [0]
      else Answer 0xF0 [])"

definition scenario_poll_code :: "byte \<Rightarrow> SSP_POLL_CODE" where
  "scenario_poll_code b =
     (if b = 0xEF then SSP_POLL_READ
      else if b = 0xEE then SSP_POLL_CREDIT
      else if b = 0xDA then SSP_POLL_DISPENSING
      else if b = 0xD2 then SSP_POLL_DISPENSED
      else SSP_POLL_OTHER)"

definition scenario_calibration_code :: "64 word \<Rightarrow> CALIBRATION_CODE" where
  "scenario_calibration_code c =
     (if c = 0 then NO_FAILUE else if c = 1 then SENSOR_FLAP else if c = 2 then SENSOR_EXIT
      else if c = 3 then SENSOR_COIL1 else if c = 4 then SENSOR_COIL2
      else if c = 5 then NOT_INITIALISED else if c = 6 then CHECKSUM_ERROR
      else if c = 7 then COMMAND_RECAL else CALIBRATION_OTHER)"

definition scenario_env :: env where
  "scenario_env =
     \<lparr>json_loads = scenario_loads, transport = scenario_transport,
      poll_code = scenario_poll_code, calibration_code = scenario_calibration_code,
      SSP_RESPONSE_OK = 0xF0, SSP_CMD_EMPTY = 0x3F, SSP_CMD_FLOAT = 0x3D,
      SSP_CMD_CHANNEL_SECURITY = 0x0F, SSP6_OPTION_BYTE_DO = 0x58,
      SSP6_OPTION_BYTE_TEST = 0x19\<rparr>"

definition euro_channel :: "32 word \<Rightarrow> SSP6_CHANNEL_DATA" where
  "euro_channel v = \<lparr>channel_value = v, channel_cc = ''EUR''\<rparr>"

definition scenario_world :: world where
  "scenario_world =
     \<lparr>deviceAvailable = True,
      hopper = \<lparr>channelInhibits = 0, ResponseData = [], ChannelData = []\<rparr>,
      validator = \<lparr>channelInhibits = 0, ResponseData = [],
                   ChannelData = map euro_channel [5, 10, 20, 50, 100, 200, 500]\<rparr>,
      receivedSignal = 0, published = [], wire = [], frees = []\<rparr>"

definition scenario_command :: "string \<Rightarrow> json \<Rightarrow> m_command" where
  "scenario_command c j =
     \<lparr>message = None, jsonMessage = j, command = c, msgId = ''B'', responseMsgId = ''R'',
      responseTopic = ''validator-response'', device = Validator\<rparr>"

definition poll_event :: "byte \<Rightarrow> 64 word \<Rightarrow> SSP_POLL_EVENT6" where
  "poll_event b d1 = \<lparr>event = b, data1 = d1, data2 = 0, cc = ''EUR''\<rparr>"

section \<open>Lemmas\<close>

subsection \<open>The device record and the exchange\<close>

lemma wire_update_device [simp]: "wire (update_device d f w) = wire w"
  by (cases d) simp_all

lemma published_update_device [simp]: "published (update_device d f w) = published w"
  by (cases d) simp_all

lemma frees_update_device [simp]: "frees (update_device d f w) = frees w"
  by (cases d) simp_all

lemma get_update_device [simp]: "get_device d (update_device d f w) = f (get_device d w)"
  by (cases d) simp_all

lemma get_device_wire [simp]: "get_device d (w\<lparr>wire := x\<rparr>) = get_device d w"
  by (cases d) simp_all

lemma get_device_published [simp]: "get_device d (w\<lparr>published := x\<rparr>) = get_device d w"
  by (cases d) simp_all

lemma get_device_frees [simp]: "get_device d (w\<lparr>frees := x\<rparr>) = get_device d w"
  by (cases d) simp_all

lemma exchange_wire: "wire (snd (exchange e d c w)) = wire w @ [(d, c)]"
  by (simp add: exchange_def Let_def split: ssp_answer.split)

lemma exchange_published: "published (snd (exchange e d c w)) = published w"
  by (simp add: exchange_def Let_def split: ssp_answer.split)

lemma exchange_frees: "frees (snd (exchange e d c w)) = frees w"
  by (simp add: exchange_def Let_def split: ssp_answer.split)

lemma exchange_channelInhibits:
  "channelInhibits (get_device d' (snd (exchange e d c w))) = channelInhibits (get_device d' w)"
  by (cases d; cases d') (simp_all add: exchange_def Let_def split: ssp_answer.split)

lemma exchange_No_answer:
  assumes "transport e (wire w @ [(d, c)]) = No_answer"
  shows "exchange e d c w = (SSP_RESPONSE_TIMEOUT, w\<lparr>wire := wire w @ [(d, c)]\<rparr>)"
  using assms by (simp add: exchange_def Let_def)

lemma exchange_Answer:
  assumes "transport e (wire w @ [(d, c)]) = Answer st bs"
  shows "exchange e d c w =
    (SSP_RESPONSE st,
     update_device d (\<lambda>dev. dev\<lparr>ResponseData := st # bs\<rparr>) (w\<lparr>wire := wire w @ [(d, c)]\<rparr>))"
  using assms by (simp add: exchange_def Let_def)

lemma reply_wire [simp]:
  "wire (replyOk t r m w) = wire w" "wire (replyFailed t r m w) = wire w"
  "wire (replyAccepted t r m w) = wire w" "wire (replyWith t p w) = wire w"
  by (simp_all add: replyOk_def replyFailed_def replyAccepted_def replyWith_def)

lemma reply_frees [simp]:
  "frees (replyOk t r m w) = frees w" "frees (replyFailed t r m w) = frees w"
  "frees (replyAccepted t r m w) = frees w" "frees (replyWith t p w) = frees w"
  by (simp_all add: replyOk_def replyFailed_def replyAccepted_def replyWith_def)

lemma reply_get_device [simp]:
  "get_device d (replyOk t r m w) = get_device d w"
  "get_device d (replyFailed t r m w) = get_device d w"
  "get_device d (replyAccepted t r m w) = get_device d w"
  "get_device d (replyWith t p w) = get_device d w"
  by (simp_all add: replyOk_def replyFailed_def replyAccepted_def replyWith_def)

lemma json_decref_same: "frees w' = loaded \<Longrightarrow> json_decref loaded w' = Inr w'"
  by (simp add: json_decref_def)

subsection \<open>Values of the scenarios\<close>

lemma scenario_loads_simps:
  "json_loads scenario_env msg_quit = Inr (envelope ''A'' ''quit'')"
  "json_loads scenario_env msg_payout = Inr (envelope ''C'' ''do-payout'')"
  "json_loads scenario_env msg_levitate = Inr (envelope ''D'' ''levitate'')"
  "json_loads scenario_env msg_security = Inr (envelope ''S'' ''channel-security-data'')"
  "json_loads scenario_env msg_firmware = Inr (envelope ''V'' ''get-firmware-version'')"
  "json_loads scenario_env msg_dataset = Inr (envelope ''W'' ''get-dataset-version'')"
  "json_loads scenario_env msg_enable = Inr (envelope ''E'' ''enable'')"
  "json_loads scenario_env msg_enable_spaced = Inr (envelope ''E'' ''enable'')"
  "json_loads scenario_env msg_enable_nested = Inr json_enable_nested"
  "json_loads scenario_env msg_enable_channels = Inr (json_channels ''enable-channels'' ''135'')"
  "json_loads scenario_env msg_enable_channels_spaced =
     Inr (json_channels ''enable-channels'' ''135'')"
  "json_loads scenario_env msg_disable_channels_spaced =
     Inr (json_channels ''disable-channels'' ''135'')"
  "json_loads scenario_env msg_inhibit_channels = Inr (json_channels ''inhibit-channels'' ''135'')"
  "json_loads scenario_env msg_channels_missing = Inr (envelope ''B'' ''enable-channels'')"
  "json_loads scenario_env msg_disable_channels = Inr (json_channels ''disable-channels'' ''135'')"
  by (simp_all add: scenario_env_def scenario_loads_def msg_quit_def msg_payout_def
      msg_levitate_def msg_security_def msg_firmware_def msg_dataset_def msg_enable_def
      msg_enable_spaced_def msg_enable_nested_def msg_enable_channels_def
      msg_enable_channels_spaced_def msg_disable_channels_spaced_def msg_inhibit_channels_def
      msg_channels_missing_def msg_disable_channels_def)

lemma scenario_env_simps:
  "SSP_RESPONSE_OK scenario_env = 0xF0" "SSP_CMD_EMPTY scenario_env = 0x3F"
  "SSP_CMD_CHANNEL_SECURITY scenario_env = 0x0F"
  "transport scenario_env = scenario_transport"
  "poll_code scenario_env = scenario_poll_code"
  by (simp_all add: scenario_env_def)

lemma scenario_world_simps:
  "deviceAvailable scenario_world" "published scenario_world = []" "wire scenario_world = []"
  "frees scenario_world = []" "channelInhibits (validator scenario_world) = 0"
  by (simp_all add: scenario_world_def)

lemma scenario_transport_simps:
  "scenario_transport [(d, SEND_SSP_COMMAND [0x0F])] = Answer 0xF0 [0]"
  "scenario_transport [(d, SEND_SSP_COMMAND [SSP_CMD_GET_FIRMWARE_VERSION])] =
     Answer 0xF0 firmware_bytes"
  "scenario_transport [(d, SEND_SSP_COMMAND [SSP_CMD_GET_DATASET_VERSION])] =
     Answer 0xF0 dataset_bytes"
  "scenario_transport [(d, SEND_SSP_COMMAND [0x3F])] = Answer 0xF0 []"
  "scenario_transport [(d, SSP6_ENABLE)] = Answer 0xF0 []"
  "scenario_transport [(d, SSP6_SET_INHIBITS lo hi)] = Answer 0xF0 []"
  by (simp_all add: scenario_transport_def SSP_CMD_GET_FIRMWARE_VERSION_def
      SSP_CMD_GET_DATASET_VERSION_def)

lemma select_handler_scenarios:
  "select_handler msg_quit = UnknownCommand"
  "select_handler msg_payout = HandlePayout"
  "select_handler msg_levitate = UnknownCommand"
  "select_handler msg_security = HandleChannelSecurityData"
  "select_handler msg_firmware = HandleGetFirmwareVersion"
  "select_handler msg_dataset = HandleGetDatasetVersion"
  "select_handler msg_enable = HandleEnable"
  "select_handler msg_enable_spaced = UnknownCommand"
  "select_handler msg_enable_nested = HandleEmpty"
  "select_handler msg_enable_channels = HandleEnableChannels"
  "select_handler msg_enable_channels_spaced = UnknownCommand"
  "select_handler msg_disable_channels_spaced = UnknownCommand"
  "select_handler msg_inhibit_channels = HandleInhibitChannels"
  "select_handler msg_channels_missing = HandleEnableChannels"
  "select_handler msg_disable_channels = HandleDisableChannels"
  by code_simp+

lemma isCommand_quit_scenarios:
  "isCommand msg_quit ''quit''"
  "\<not> isCommand msg_payout ''quit''"
  "\<not> isCommand msg_levitate ''quit''"
  "\<not> isCommand msg_security ''quit''"
  "\<not> isCommand msg_firmware ''quit''"
  "\<not> isCommand msg_dataset ''quit''"
  "\<not> isCommand msg_enable ''quit''"
  "\<not> isCommand msg_enable_spaced ''quit''"
  "\<not> isCommand msg_enable_nested ''quit''"
  "\<not> isCommand msg_enable_channels ''quit''"
  "\<not> isCommand msg_enable_channels_spaced ''quit''"
  "\<not> isCommand msg_disable_channels_spaced ''quit''"
  "\<not> isCommand msg_inhibit_channels ''quit''"
  "\<not> isCommand msg_channels_missing ''quit''"
  "\<not> isCommand msg_disable_channels ''quit''"
  by code_simp+

subsection \<open>Dispatch of a delivered message\<close>

lemma delivered_validator:
  "cbOnRequestMessage e uuid (delivered ''validator-request'' msg) w =
     request e uuid Validator ''validator-response'' msg w"
  by (simp add: cbOnRequestMessage_def delivered_def)

lemma delivered_hopper:
  "cbOnRequestMessage e uuid (delivered ''hopper-request'' msg) w =
     request e uuid Hopper ''hopper-response'' msg w"
  by (simp add: cbOnRequestMessage_def delivered_def)

lemma request_dispatch_json:
  assumes "json_loads e msg = Inr j" "deviceAvailable w" "\<not> isCommand msg ''quit''"
    and "json_object_get j ''msgId'' = Some (JString mId)"
    and "json_object_get j ''cmd'' = Some (JString c)"
  shows "request e uuid dev rTopic msg w =
     (case run_handler e (select_handler msg) msg
             \<lparr>message = None, jsonMessage = j, command = c, msgId = mId,
              responseMsgId = uuid, responseTopic = rTopic, device = dev\<rparr> w of
        Inl f \<Rightarrow> Inl f
      | Inr w2 \<Rightarrow> json_decref (frees w) w2)"
  using assms by (simp add: request_def)

lemma request_dispatch:
  assumes "json_loads e msg = Inr (envelope mId c)" "deviceAvailable w" "\<not> isCommand msg ''quit''"
  shows "request e uuid dev rTopic msg w =
     (case run_handler e (select_handler msg) msg
             \<lparr>message = None, jsonMessage = envelope mId c, command = c, msgId = mId,
              responseMsgId = uuid, responseTopic = rTopic, device = dev\<rparr> w of
        Inl f \<Rightarrow> Inl f
      | Inr w2 \<Rightarrow> json_decref (frees w) w2)"
  using assms by (simp add: request_def envelope_def)

lemma request_dispatch_channels:
  assumes "json_loads e msg = Inr (json_channels c channels)" "deviceAvailable w"
    and "\<not> isCommand msg ''quit''"
  shows "request e uuid dev rTopic msg w =
     (case run_handler e (select_handler msg) msg
             \<lparr>message = None, jsonMessage = json_channels c channels, command = c,
              msgId = ''B'', responseMsgId = uuid, responseTopic = rTopic, device = dev\<rparr> w of
        Inl f \<Rightarrow> Inl f
      | Inr w2 \<Rightarrow> json_decref (frees w) w2)"
  using assms by (simp add: request_def json_channels_def)

subsection \<open>The channel masks\<close>

lemma strstr_single: "(strstr h [c] \<noteq> None) = (c \<in> set h)"
  by (induction h) auto

lemma digit_chars:
  "digit_char 1 = CHR ''1''" "digit_char 2 = CHR ''2''" "digit_char 3 = CHR ''3''"
  "digit_char 4 = CHR ''4''" "digit_char 5 = CHR ''5''" "digit_char 6 = CHR ''6''"
  "digit_char 7 = CHR ''7''" "digit_char 8 = CHR ''8''"
  by (simp_all add: digit_char_def)

lemma upt_1_9: "[1..<9] = [1, 2, 3, 4, 5, 6, 7, 8::nat]"
  by (simp add: upt_rec)

lemma bit_or_step:
  "bit (if c then x OR push_bit k 1 else x) n = (bit x n \<or> (c \<and> n = k \<and> k < 8))"
  for x :: byte
  by (auto simp add: bit_simps)

lemma bit_andnot_step:
  "bit (if c then x AND NOT (push_bit k 1) else x) n = (bit x n \<and> \<not> (c \<and> n = k))"
  for x :: byte
  by (auto simp add: bit_simps dest: bit_imp_le_length)

lemma channel_digit_cases:
  "(n < 8 \<and> digit_char (Suc n) \<in> set channels) =
    ((CHR ''1'' \<in> set channels \<and> n = 0) \<or> (CHR ''2'' \<in> set channels \<and> n = 1) \<or>
     (CHR ''3'' \<in> set channels \<and> n = 2) \<or> (CHR ''4'' \<in> set channels \<and> n = 3) \<or>
     (CHR ''5'' \<in> set channels \<and> n = 4) \<or> (CHR ''6'' \<in> set channels \<and> n = 5) \<or>
     (CHR ''7'' \<in> set channels \<and> n = 6) \<or> (CHR ''8'' \<in> set channels \<and> n = 7))"
proof (cases "n < 8")
  case True
  then consider "n = 0" | "n = 1" | "n = 2" | "n = 3" | "n = 4" | "n = 5" | "n = 6" | "n = 7"
    by arith
  then show ?thesis
    by cases (simp_all add: digit_char_def)
next
  case False
  then show ?thesis by auto
qed

lemma bit_requested_mask:
  "bit (requested_mask channels) n = (n < 8 \<and> digit_char (Suc n) \<in> set channels)"
  unfolding channel_digit_cases
  unfolding requested_mask_def upt_1_9 foldr.simps o_apply id_apply digit_chars bit_or_step
  by (simp add: disj_ac)

lemma bit_enable_bits:
  "bit (enable_bits channels cur) n =
     (bit cur n \<or> n < 8 \<and> digit_char (Suc n) \<in> set channels)"
  unfolding channel_digit_cases
  unfolding enable_bits_def Let_def strstr_single bit_or_step
  by simp

lemma bit_disable_bits:
  "bit (disable_bits channels cur) n =
     (bit cur n \<and> \<not> (n < 8 \<and> digit_char (Suc n) \<in> set channels))"
  unfolding channel_digit_cases
  unfolding disable_bits_def Let_def strstr_single bit_andnot_step
  by simp

lemma enable_bits_mask: "enable_bits channels cur = cur OR requested_mask channels"
  by (rule bit_word_eqI) (simp add: bit_enable_bits bit_requested_mask bit_or_iff)

lemma disable_bits_mask: "disable_bits channels cur = cur AND NOT (requested_mask channels)"
  by (rule bit_word_eqI) (simp add: bit_disable_bits bit_requested_mask bit_and_iff bit_not_iff)


lemma requested_mask_135: "requested_mask ''135'' = 0x15"
  by code_simp

subsection \<open>The handlers\<close>

lemma handleEnableChannels_run:
  assumes "json_object_get (jsonMessage cmd) ''channels'' = Some (JString channels)"
  shows "handleEnableChannels e cmd w =
    (let m = enable_bits channels (channelInhibits (get_device (device cmd) w));
         w1 = snd (ssp6_set_inhibits e (device cmd) m 0xFF w)
     in if set_inhibits_ok e (device cmd) m 0xFF w
        then replyOk (responseTopic cmd) (responseMsgId cmd) (msgId cmd)
               (update_device (device cmd) (\<lambda>dev. dev\<lparr>channelInhibits := m\<rparr>) w1)
        else replyFailed (responseTopic cmd) (responseMsgId cmd) (msgId cmd) w1)"
  using assms by (simp add: handleEnableChannels_def set_inhibits_ok_def Let_def split_beta)

lemma handleDisableChannels_run:
  assumes "json_object_get (jsonMessage cmd) ''channels'' = Some (JString channels)"
  shows "handleDisableChannels e cmd w =
    (let m = disable_bits channels (channelInhibits (get_device (device cmd) w));
         w1 = snd (ssp6_set_inhibits e (device cmd) m 0xFF w)
     in if set_inhibits_ok e (device cmd) m 0xFF w
        then replyOk (responseTopic cmd) (responseMsgId cmd) (msgId cmd)
               (update_device (device cmd) (\<lambda>dev. dev\<lparr>channelInhibits := m\<rparr>) w1)
        else replyFailed (responseTopic cmd) (responseMsgId cmd) (msgId cmd) w1)"
  using assms by (simp add: handleDisableChannels_def set_inhibits_ok_def Let_def split_beta)


lemma set_inhibits_wire:
  "wire (snd (ssp6_set_inhibits e d lo hi w)) = wire w @ [(d, SSP6_SET_INHIBITS lo hi)]"
  by (simp add: ssp6_set_inhibits_def exchange_wire)

lemma set_inhibits_published: "published (snd (ssp6_set_inhibits e d lo hi w)) = published w"
  by (simp add: ssp6_set_inhibits_def exchange_published)

lemma set_inhibits_channelInhibits:
  "channelInhibits (get_device d' (snd (ssp6_set_inhibits e d lo hi w))) =
     channelInhibits (get_device d' w)"
  by (simp add: ssp6_set_inhibits_def exchange_channelInhibits)

lemma set_inhibits_frees: "frees (snd (ssp6_set_inhibits e d lo hi w)) = frees w"
  by (simp add: ssp6_set_inhibits_def exchange_frees)

lemma handleEnable_wire: "wire (handleEnable e cmd w) = wire w @ [(device cmd, SSP6_ENABLE)]"
  by (simp add: handleEnable_def ssp6_enable_def split_beta exchange_wire)

lemma handleEnable_frees: "frees (handleEnable e cmd w) = frees w"
  by (simp add: handleEnable_def ssp6_enable_def split_beta exchange_frees)

lemma handleEmpty_wire:
  "wire (handleEmpty e cmd w) = wire w @ [(device cmd, SEND_SSP_COMMAND [SSP_CMD_EMPTY e])]"
  by (simp add: handleEmpty_def mc_ssp_empty_def split_beta exchange_wire)

lemma handleEmpty_frees: "frees (handleEmpty e cmd w) = frees w"
  by (simp add: handleEmpty_def mc_ssp_empty_def split_beta exchange_frees)

lemma channel_security_publishes_nothing:
  assumes "handleChannelSecurityData e cmd w = Inr w'"
  shows "published w' = published w \<and> frees w' = frees w"
proof -
  obtain r w1 where x: "exchange e (device cmd) (SEND_SSP_COMMAND [SSP_CMD_CHANNEL_SECURITY e]) w = (r, w1)"
    by (cases "exchange e (device cmd) (SEND_SSP_COMMAND [SSP_CMD_CHANNEL_SECURITY e]) w")
  have p: "published w1 = published w" "frees w1 = frees w"
    using exchange_published [of e "device cmd" "SEND_SSP_COMMAND [SSP_CMD_CHANNEL_SECURITY e]" w]
      exchange_frees [of e "device cmd" "SEND_SSP_COMMAND [SSP_CMD_CHANNEL_SECURITY e]" w] x
    by simp_all
  from assms x have "w' = w1"
    by (auto simp add: handleChannelSecurityData_def mc_ssp_channel_security_data_def
        split: SSP_RESPONSE_ENUM.splits if_splits sum.splits)
  with p show ?thesis by simp
qed

lemma c_str_versions:
  "c_str firmware_bytes = ''NV02004141498000''"
  "c_str dataset_bytes = ''EUR01610''"
  by code_simp+

lemma length_versions: "length firmware_bytes = 16" "length dataset_bytes = 8"
  by (simp_all add: firmware_bytes_def dataset_bytes_def)

lemma version_replies_unbalanced:
  \<open>\<not> json_brackets_balanced ''{"correlId":"V","version":"NV02004141498000"]}''\<close>
  \<open>\<not> json_brackets_balanced ''{"correlId":"W","version":"EUR01610"]}''\<close>
  \<open>json_brackets_balanced ''{"correlId":"V","version":"NV02004141498000"}''\<close>
  by code_simp+

lemma get_version_OK:
  assumes "transport e (wire w @ [(d, SEND_SSP_COMMAND [c])]) = Answer (SSP_RESPONSE_OK e) bs"
    and "n \<le> length bs"
  shows "\<exists>w1. get_version e d c n w =
           Inr (SSP_RESPONSE (SSP_RESPONSE_OK e), c_str (take n (drop 1 (SSP_RESPONSE_OK e # bs))), w1)
         \<and> published w1 = published w \<and> frees w1 = frees w"
  using assms by (simp add: get_version_def exchange_Answer)

lemma set_denomination_level_wire:
  "wire (snd (mc_ssp_set_denomination_level e d amount level c w)) =
     wire w @ [(d, SEND_SSP_COMMAND
                     (SSP_CMD_SET_DENOMINATION_LEVEL # le_bytes 2 level @ le_bytes 4 amount
                        @ map byte_of_char (take 3 c)))]"
  by (simp add: mc_ssp_set_denomination_level_def exchange_wire)

lemma le_bytes_scenario:
  "le_bytes 2 0 = [0, 0]" "le_bytes 2 200 = [200, 0]" "le_bytes 4 5 = [5, 0, 0, 0]"
  "map byte_of_char (take 3 CURRENCY) = [0x45, 0x55, 0x52]"
  by (simp_all add: le_bytes_def upt_rec CURRENCY_def byte_of_char_def)

text \<open>
  What the handlers of the channel commands do once they are called with a \<open>channels\<close>
  string: \<open>handleEnableChannels\<close> sends \<open>set_inhibits(old OR mask, 0xFF)\<close>,
  \<open>handleDisableChannels\<close> sends \<open>set_inhibits(old AND NOT mask, 0xFF)\<close>, and each stores the
  new mask exactly when the call returns OK; \<open>handleInhibitChannels\<close> sends
  \<open>set_inhibits(NOT mask, 0xFF)\<close>, stores nothing and frees the string.
\<close>

lemma enable_disable_channels_mask:
  assumes "json_object_get (jsonMessage cmd) ''channels'' = Some (JString channels)"
  shows \<open>(let old = channelInhibits (get_device (device cmd) w);
              new_mask = old OR requested_mask channels;
              ok = set_inhibits_ok e (device cmd) new_mask 0xFF w;
              w' = handleEnableChannels e cmd w
          in wire w' = wire w @ [(device cmd, SSP6_SET_INHIBITS new_mask 0xFF)]
           \<and> channelInhibits (get_device (device cmd) w') = (if ok then new_mask else old)
           \<and> published w' = published w @
                [(responseTopic cmd,
                  ''{"msgId":"'' @ responseMsgId cmd @ ''","correlId":"'' @ msgId cmd
                    @ (if ok then ''","result":"ok"}'' else ''","result":"failed"}''))]
           \<and> frees w' = frees w)
       \<and> (let old = channelInhibits (get_device (device cmd) w);
              new_mask = old AND NOT (requested_mask channels);
              ok = set_inhibits_ok e (device cmd) new_mask 0xFF w;
              w' = handleDisableChannels e cmd w
          in wire w' = wire w @ [(device cmd, SSP6_SET_INHIBITS new_mask 0xFF)]
           \<and> channelInhibits (get_device (device cmd) w') = (if ok then new_mask else old)
           \<and> published w' = published w @
                [(responseTopic cmd,
                  ''{"msgId":"'' @ responseMsgId cmd @ ''","correlId":"'' @ msgId cmd
                    @ (if ok then ''","result":"ok"}'' else ''","result":"failed"}''))]
           \<and> frees w' = frees w)
       \<and> (\<forall>n. bit (requested_mask channels) n = (n < 8 \<and> digit_char (Suc n) \<in> set channels))\<close>
  unfolding Let_def handleEnableChannels_run [OF assms] handleDisableChannels_run [OF assms]
    enable_bits_mask disable_bits_mask
  by (simp add: set_inhibits_wire set_inhibits_published set_inhibits_channelInhibits
      set_inhibits_frees bit_requested_mask replyOk_def replyFailed_def replyWith_def)


subsection \<open>Channel amounts of the validator\<close>

lemma unat_pred_of_nat:
  assumes "1 \<le> k" "k < 2 ^ 64"
  shows "unat (of_nat k - 1 :: 64 word) = k - 1"
proof -
  have "(of_nat k - 1 :: 64 word) = of_nat (k - 1)"
    using assms by simp
  moreover have "k - 1 < 2 ^ 64" using assms by simp
  ultimately show ?thesis by (simp add: unat_of_nat)
qed

lemma of_nat_pos:
  assumes "1 \<le> k" "k < 2 ^ 64"
  shows "0 < (of_nat k :: 64 word)"
  using assms by (simp add: word_less_nat_alt unat_of_nat)

lemma fmt_ld_of_nat:
  assumes "k < 2 ^ 63"
  shows "fmt_ld (of_nat k) = decimal k"
proof -
  have "sint (of_nat k :: 64 word) = int k"
    using assms by (simp add: signed_of_nat signed_take_bit_int_eq_self)
  then show ?thesis by (simp add: fmt_ld_def fmt_int_def)
qed

lemma fmt_ld_ucast: "fmt_ld (ucast (x :: 32 word)) = decimal (unat x)"
proof -
  have "sint (ucast x :: 64 word) = uint x"
  proof -
    have "uint x < 2 ^ 32" using uint_bounded [of x] by simp
    then have "uint x < 2 ^ 63" by simp
    moreover have "- (2 ^ 63) \<le> uint x"
    proof -
      have "- (2 ^ 63) \<le> (0::int)" by simp
      also have "0 \<le> uint x" by (rule uint_nonnegative)
      finally show ?thesis .
    qed
    ultimately have "signed_take_bit 63 (uint x) = uint x"
      by (rule signed_take_bit_int_eq_self [rotated])
    then show ?thesis
      by (simp add: signed_ucast_eq)
  qed
  then show ?thesis by (simp add: fmt_ld_def fmt_int_def)
qed

lemma channel_amount_in_range:
  assumes "1 \<le> k" "k \<le> length (ChannelData dev)" "k < 2 ^ 64"
  shows "channel_amount dev (of_nat k) = Inr (ucast (channel_value (ChannelData dev ! (k - 1)) * 100))"
  using assms by (simp add: channel_amount_def Let_def unat_pred_of_nat)

lemma channel_amount_zero:
  assumes "length (ChannelData dev) < 2 ^ 64"
  shows "channel_amount dev 0 = Inl Out_of_bounds"
proof -
  have "unat (0 - 1 :: 64 word) = 2 ^ 64 - 1" by (simp add: unsigned_minus_1_eq_mask mask_eq_exp_minus_1)
  then show ?thesis using assms by (simp add: channel_amount_def Let_def)
qed

lemma validator_event_amount:
  assumes "data1 ev = of_nat k" "1 \<le> k" "k \<le> length (ChannelData (get_device d w))"
    and "k < 2 ^ 63"
    and "poll_code e (event ev) = SSP_POLL_READ \<and> what = ''read''
         \<or> poll_code e (event ev) = SSP_POLL_CREDIT \<and> what = ''credit''"
  shows \<open>validatorEventHandler e d [ev] w =
           Inr (publishValidatorEvent
                  (''{"event":"'' @ what @ ''","amount":''
                     @ decimal (unat (channel_value (ChannelData (get_device d w) ! (k - 1)) * 100))
                     @ '',"channel":'' @ decimal k @ ''}'') w)\<close>
proof -
  have k64: "k < 2 ^ 64" using assms(4) by simp
  have amount: "channel_amount (get_device d w) (data1 ev) =
      Inr (ucast (channel_value (ChannelData (get_device d w) ! (k - 1)) * 100))"
    using assms(1-3) k64 by (simp add: channel_amount_in_range)
  have pos: "0 < data1 ev"
    using assms(1,2) k64 by (simp add: of_nat_pos)
  have chan: "fmt_ld (data1 ev) = decimal k"
    using assms(1,4) by (simp add: fmt_ld_of_nat)
  from assms(5) show ?thesis
    by (auto simp add: validatorEvent_def amount pos amount_channel_def chan fmt_ld_ucast)
qed

lemma channel_product_exact:
  assumes "unat v * 100 < 2 ^ 32"
  shows "unat (v * 100 :: 32 word) = unat v * 100"
  using assms by (simp add: unat_word_ariths)

section \<open>Replies of the request callback\<close>

text \<open>
  Claim C1. Every accepted command envelope (valid JSON with a string \<open>msgId\<close> and a string
  \<open>cmd\<close>) is answered by exactly one response on the paired response topic, whose
  \<open>correlId\<close> is the incoming \<open>msgId\<close>. The callback is evaluated here at three accepted
  envelopes: \<open>enable-channels\<close> without a \<open>channels\<close> property is answered with the
  \<open>correlId\<close> set to the identifier generated for the response; \<open>channel-security-data\<close>
  is answered by nothing; \<open>quit\<close> is answered twice.
\<close>

theorem responses_per_request:
  assumes "json_loads e msg_channels_missing = Inr (envelope ''B'' ''enable-channels'')"
    and "json_loads e msg_security = Inr (envelope ''S'' ''channel-security-data'')"
    and "json_loads e msg_quit = Inr (envelope ''A'' ''quit'')"
    and "deviceAvailable w"
  shows \<open>cbOnRequestMessage e uuid (delivered ''validator-request'' msg_channels_missing) w =
           Inr (w\<lparr>published := published w @
                  [(''validator-response'',
                    ''{"correlId":"'' @ uuid
                      @ ''","error":"property 'channels' missing or not a string"}'')]\<rparr>)
       \<and> (\<forall>w'. cbOnRequestMessage e uuid (delivered ''hopper-request'' msg_security) w = Inr w'
              \<longrightarrow> published w' = published w)
       \<and> cbOnRequestMessage e uuid (delivered ''hopper-request'' msg_quit) w =
           Inr (w\<lparr>receivedSignal := 1,
                  published := published w @
                  [(''hopper-response'',
                    ''{"msgId":"'' @ uuid @ ''","correlId":"A","result":"ok"}''),
                   (''hopper-response'',
                    ''{"correlId":"A","error":"unknown command","cmd":"{"msgId":"A","cmd":"quit"}"}'')]\<rparr>)\<close>
proof -
  have missing: "cbOnRequestMessage e uuid (delivered ''validator-request'' msg_channels_missing) w =
      Inr (w\<lparr>published := published w @
             [(''validator-response'',
               ''{\"correlId\":\"'' @ uuid
                 @ ''\",\"error\":\"property 'channels' missing or not a string\"}'')]\<rparr>)"
    unfolding delivered_validator
      request_dispatch [OF assms(1) assms(4) isCommand_quit_scenarios(14)]
      select_handler_scenarios
    by (simp add: handleEnableChannels_def channels_missing_def replyWith_def envelope_def
        json_decref_def)
  have security: "published w' = published w"
    if "cbOnRequestMessage e uuid (delivered ''hopper-request'' msg_security) w = Inr w'" for w'
    using that
    unfolding delivered_hopper
      request_dispatch [OF assms(2) assms(4) isCommand_quit_scenarios(4)] select_handler_scenarios
    by (auto simp add: json_decref_def split: sum.splits if_splits
        dest: channel_security_publishes_nothing)
  have quit: "cbOnRequestMessage e uuid (delivered ''hopper-request'' msg_quit) w =
      Inr (w\<lparr>receivedSignal := 1,
             published := published w @
             [(''hopper-response'',
               ''{\"msgId\":\"'' @ uuid @ ''\",\"correlId\":\"A\",\"result\":\"ok\"}''),
              (''hopper-response'',
               ''{\"correlId\":\"A\",\"error\":\"unknown command\",\"cmd\":\"{\"msgId\":\"A\",\"cmd\":\"quit\"}\"}'')]\<rparr>)"
    unfolding delivered_hopper
    using assms(3,4) isCommand_quit_scenarios(1)
    by (simp add: request_def envelope_def select_handler_scenarios handleQuit_def replyOk_def
        replyWith_def unknown_command_def json_decref_def Let_def) (simp add: msg_quit_def)
  from missing security quit show ?thesis by blast
qed

text \<open>The three requests in the scenario environment, the generated identifier being
  \<open>R\<close>.\<close>

theorem responses_per_request_witness:
  \<open>json_loads scenario_env msg_channels_missing = Inr (envelope ''B'' ''enable-channels'')
   \<and> json_loads scenario_env msg_security = Inr (envelope ''S'' ''channel-security-data'')
   \<and> json_loads scenario_env msg_quit = Inr (envelope ''A'' ''quit'')
   \<and> deviceAvailable scenario_world
   \<and> cbOnRequestMessage scenario_env ''R'' (delivered ''validator-request'' msg_channels_missing)
        scenario_world =
       Inr (scenario_world\<lparr>published :=
              [(''validator-response'',
                ''{"correlId":"R","error":"property 'channels' missing or not a string"}'')]\<rparr>)
   \<and> (\<exists>w'. cbOnRequestMessage scenario_env ''R'' (delivered ''hopper-request'' msg_security)
               scenario_world = Inr w' \<and> published w' = [])
   \<and> cbOnRequestMessage scenario_env ''R'' (delivered ''hopper-request'' msg_quit)
        scenario_world =
       Inr (scenario_world\<lparr>receivedSignal := 1,
              published :=
              [(''hopper-response'', ''{"msgId":"R","correlId":"A","result":"ok"}''),
               (''hopper-response'',
                ''{"correlId":"A","error":"unknown command","cmd":"{"msgId":"A","cmd":"quit"}"}'')]\<rparr>)\<close>
proof -
  note h = scenario_loads_simps(14) scenario_loads_simps(4) scenario_loads_simps(1)
    scenario_world_simps(1)
  have returns: "\<exists>w'. cbOnRequestMessage scenario_env ''R''
      (delivered ''hopper-request'' msg_security) scenario_world = Inr w'"
    unfolding delivered_hopper
      request_dispatch [OF h(2) h(4) isCommand_quit_scenarios(4)] select_handler_scenarios
    by (simp add: handleChannelSecurityData_def mc_ssp_channel_security_data_def exchange_def
        scenario_env_simps scenario_world_simps scenario_transport_simps ResponseData_at_def
        json_decref_def)
  from responses_per_request [OF h, of "''R''"] returns show ?thesis
    using h by (auto simp add: scenario_world_simps)
qed

text \<open>
  Claim C3. An accepted envelope whose command is not recognised is answered with
  \<open>{"correlId":<msgId>,"error":"unknown command","cmd":<the cmd value>}\<close>. The callback is
  evaluated here at \<open>{"msgId":"D","cmd":"levitate"}\<close>: the \<open>cmd\<close> of its reply is the text of
  the whole message, not \<open>levitate\<close>.
\<close>

theorem unknown_command_reply:
  assumes "json_loads e msg_levitate = Inr (envelope ''D'' ''levitate'')" and "deviceAvailable w"
  shows \<open>cbOnRequestMessage e uuid (delivered ''hopper-request'' msg_levitate) w =
           Inr (w\<lparr>published := published w @
                  [(''hopper-response'',
                    ''{"correlId":"D","error":"unknown command","cmd":"{"msgId":"D","cmd":"levitate"}"}'')]\<rparr>)\<close>
  unfolding delivered_hopper
    request_dispatch [OF assms isCommand_quit_scenarios(3)] select_handler_scenarios
  by (simp add: unknown_command_def replyWith_def json_decref_def msg_levitate_def)

text \<open>Scenario 5 in the scenario environment.\<close>

theorem unknown_command_reply_witness:
  \<open>json_loads scenario_env msg_levitate = Inr (envelope ''D'' ''levitate'')
   \<and> deviceAvailable scenario_world
   \<and> cbOnRequestMessage scenario_env ''R'' (delivered ''hopper-request'' msg_levitate)
        scenario_world =
       Inr (scenario_world\<lparr>published :=
              [(''hopper-response'',
                ''{"correlId":"D","error":"unknown command","cmd":"{"msgId":"D","cmd":"levitate"}"}'')]\<rparr>)\<close>
proof -
  have h1: "json_loads scenario_env msg_levitate = Inr (envelope ''D'' ''levitate'')"
    by (simp add: scenario_env_def scenario_loads_def msg_levitate_def msg_quit_def
        msg_payout_def)
  have h2: "deviceAvailable scenario_world"
    by (simp add: scenario_world_def)
  from unknown_command_reply [OF h1 h2, of "''R''"] show ?thesis
    using h1 h2 by (simp add: scenario_world_def)
qed

text \<open>
  Claim C7. Two accepted messages with the same parsed \<open>cmd\<close> value are dispatched to the
  same handler. The callback is evaluated here at three messages whose \<open>cmd\<close> is \<open>enable\<close>:
  the plain one runs \<open>handleEnable\<close>, the one with a blank after the colons is answered
  as an unknown command, and the one carrying a nested object with \<open>"cmd":"empty"\<close> runs
  \<open>handleEmpty\<close>.
\<close>

theorem dispatch_on_message_text:
  assumes "json_loads e msg_enable = Inr (envelope ''E'' ''enable'')"
    and "json_loads e msg_enable_spaced = Inr (envelope ''E'' ''enable'')"
    and "json_loads e msg_enable_nested = Inr json_enable_nested"
    and "deviceAvailable w"
  shows \<open>json_object_get (envelope ''E'' ''enable'') ''cmd'' = Some (JString ''enable'')
       \<and> json_object_get json_enable_nested ''cmd'' = Some (JString ''enable'')
       \<and> select_handler msg_enable = HandleEnable
       \<and> select_handler msg_enable_spaced = UnknownCommand
       \<and> select_handler msg_enable_nested = HandleEmpty
       \<and> (\<exists>w'. cbOnRequestMessage e uuid (delivered ''validator-request'' msg_enable) w = Inr w'
              \<and> wire w' = wire w @ [(Validator, SSP6_ENABLE)])
       \<and> (\<exists>w'. cbOnRequestMessage e uuid (delivered ''validator-request'' msg_enable_spaced) w
                = Inr w'
              \<and> wire w' = wire w
              \<and> published w' = published w @
                   [(''validator-response'',
                     ''{"correlId":"E","error":"unknown command","cmd":"{"msgId":"E", "cmd": "enable"}"}'')])
       \<and> (\<exists>w'. cbOnRequestMessage e uuid (delivered ''validator-request'' msg_enable_nested) w
                = Inr w'
              \<and> wire w' = wire w @ [(Validator, SEND_SSP_COMMAND [SSP_CMD_EMPTY e])])\<close>
proof -
  have cmds: "json_object_get (envelope ''E'' ''enable'') ''cmd'' = Some (JString ''enable'')"
    "json_object_get json_enable_nested ''cmd'' = Some (JString ''enable'')"
    "json_object_get json_enable_nested ''msgId'' = Some (JString ''E'')"
    by (simp_all add: envelope_def json_enable_nested_def)
  have plain: "\<exists>w'. cbOnRequestMessage e uuid (delivered ''validator-request'' msg_enable) w
      = Inr w' \<and> wire w' = wire w @ [(Validator, SSP6_ENABLE)]"
    unfolding delivered_validator
      request_dispatch [OF assms(1) assms(4) isCommand_quit_scenarios(7)] select_handler_scenarios
    by (simp add: handleEnable_wire handleEnable_frees json_decref_same)
  have spaced: "\<exists>w'. cbOnRequestMessage e uuid (delivered ''validator-request'' msg_enable_spaced) w
      = Inr w' \<and> wire w' = wire w
      \<and> published w' = published w @
           [(''validator-response'',
             ''{\"correlId\":\"E\",\"error\":\"unknown command\",\"cmd\":\"{\"msgId\":\"E\", \"cmd\": \"enable\"}\"}'')]"
    unfolding delivered_validator
      request_dispatch [OF assms(2) assms(4) isCommand_quit_scenarios(8)] select_handler_scenarios
    by (simp add: unknown_command_def replyWith_def json_decref_def msg_enable_spaced_def)
  have nested: "\<exists>w'. cbOnRequestMessage e uuid (delivered ''validator-request'' msg_enable_nested) w
      = Inr w' \<and> wire w' = wire w @ [(Validator, SEND_SSP_COMMAND [SSP_CMD_EMPTY e])]"
    unfolding delivered_validator
      request_dispatch_json [OF assms(3) assms(4) isCommand_quit_scenarios(9) cmds(3) cmds(2)]
      select_handler_scenarios
    by (simp add: handleEmpty_wire handleEmpty_frees json_decref_same)
  from cmds(1,2) select_handler_scenarios(7,8,9) plain spaced nested show ?thesis
    by blast
qed

text \<open>The three messages in the scenario environment.\<close>

theorem dispatch_on_message_text_witness:
  \<open>json_loads scenario_env msg_enable = Inr (envelope ''E'' ''enable'')
   \<and> json_loads scenario_env msg_enable_spaced = Inr (envelope ''E'' ''enable'')
   \<and> json_loads scenario_env msg_enable_nested = Inr json_enable_nested
   \<and> deviceAvailable scenario_world
   \<and> (\<exists>w'. cbOnRequestMessage scenario_env ''R'' (delivered ''validator-request'' msg_enable)
               scenario_world = Inr w'
          \<and> wire w' = [(Validator, SSP6_ENABLE)])
   \<and> (\<exists>w'. cbOnRequestMessage scenario_env ''R''
               (delivered ''validator-request'' msg_enable_spaced) scenario_world = Inr w'
          \<and> wire w' = [])
   \<and> (\<exists>w'. cbOnRequestMessage scenario_env ''R''
               (delivered ''validator-request'' msg_enable_nested) scenario_world = Inr w'
          \<and> wire w' = [(Validator, SEND_SSP_COMMAND [0x3F])])\<close>
proof -
  note h = scenario_loads_simps(7) scenario_loads_simps(8) scenario_loads_simps(9)
    scenario_world_simps(1)
  from dispatch_on_message_text [OF h, of "''R''"] show ?thesis
    using h by (auto simp add: scenario_world_simps scenario_env_simps)
qed

text \<open>
  Claim C8. Every published response is a well-formed JSON object, and the replies to
  \<open>get-firmware-version\<close> and \<open>get-dataset-version\<close> have the shape
  \<open>{"correlId":<msgId>,"version":"<string>"}\<close>. The callback is evaluated here at both
  commands, for a device that answers with the versions \<open>NV02004141498000\<close> and
  \<open>EUR01610\<close>: each reply ends with \<open>"]}\<close>, and its brackets are not balanced.
\<close>

theorem version_reply_text:
  assumes "json_loads e msg_firmware = Inr (envelope ''V'' ''get-firmware-version'')"
    and "json_loads e msg_dataset = Inr (envelope ''W'' ''get-dataset-version'')"
    and "deviceAvailable w"
    and "SSP_RESPONSE_OK e = 0xF0"
    and "transport e (wire w @ [(Validator, SEND_SSP_COMMAND [SSP_CMD_GET_FIRMWARE_VERSION])]) =
           Answer 0xF0 firmware_bytes"
    and "transport e (wire w @ [(Validator, SEND_SSP_COMMAND [SSP_CMD_GET_DATASET_VERSION])]) =
           Answer 0xF0 dataset_bytes"
  shows \<open>(\<exists>w'. cbOnRequestMessage e uuid (delivered ''validator-request'' msg_firmware) w = Inr w'
              \<and> published w' = published w @
                   [(''validator-response'', ''{"correlId":"V","version":"NV02004141498000"]}'')])
       \<and> (\<exists>w'. cbOnRequestMessage e uuid (delivered ''validator-request'' msg_dataset) w = Inr w'
              \<and> published w' = published w @
                   [(''validator-response'', ''{"correlId":"W","version":"EUR01610"]}'')])
       \<and> \<not> json_brackets_balanced ''{"correlId":"V","version":"NV02004141498000"]}''
       \<and> \<not> json_brackets_balanced ''{"correlId":"W","version":"EUR01610"]}''\<close>
proof -
  from assms(4,5) have "transport e (wire w @ [(Validator, SEND_SSP_COMMAND [SSP_CMD_GET_FIRMWARE_VERSION])]) =
      Answer (SSP_RESPONSE_OK e) firmware_bytes" by simp
  from get_version_OK [OF this, of 16] obtain w1 where
    f: "get_version e Validator SSP_CMD_GET_FIRMWARE_VERSION 16 w =
          Inr (SSP_RESPONSE (SSP_RESPONSE_OK e), ''NV02004141498000'', w1)"
      "published w1 = published w" "frees w1 = frees w"
    using assms(4) by (auto simp add: length_versions c_str_versions)
  from assms(4,6) have "transport e (wire w @ [(Validator, SEND_SSP_COMMAND [SSP_CMD_GET_DATASET_VERSION])]) =
      Answer (SSP_RESPONSE_OK e) dataset_bytes" by simp
  from get_version_OK [OF this, of 8] obtain w2 where
    g: "get_version e Validator SSP_CMD_GET_DATASET_VERSION 8 w =
          Inr (SSP_RESPONSE (SSP_RESPONSE_OK e), ''EUR01610'', w2)"
      "published w2 = published w" "frees w2 = frees w"
    using assms(4) by (auto simp add: length_versions c_str_versions)
  have firmware: "\<exists>w'. cbOnRequestMessage e uuid (delivered ''validator-request'' msg_firmware) w
      = Inr w' \<and> published w' = published w @
           [(''validator-response'', ''{\"correlId\":\"V\",\"version\":\"NV02004141498000\"]}'')]"
    unfolding delivered_validator
      request_dispatch [OF assms(1) assms(3) isCommand_quit_scenarios(5)] select_handler_scenarios
    by (simp add: handleGetFirmwareVersion_def mc_ssp_get_firmware_version_def f replyWith_def
        json_decref_def)
  have dataset: "\<exists>w'. cbOnRequestMessage e uuid (delivered ''validator-request'' msg_dataset) w
      = Inr w' \<and> published w' = published w @
           [(''validator-response'', ''{\"correlId\":\"W\",\"version\":\"EUR01610\"]}'')]"
    unfolding delivered_validator
      request_dispatch [OF assms(2) assms(3) isCommand_quit_scenarios(6)] select_handler_scenarios
    by (simp add: handleGetDatasetVersion_def mc_ssp_get_dataset_version_def g replyWith_def
        json_decref_def)
  from firmware dataset version_replies_unbalanced(1,2) show ?thesis by blast
qed

text \<open>Both requests in the scenario environment.\<close>

theorem version_reply_text_witness:
  \<open>json_loads scenario_env msg_firmware = Inr (envelope ''V'' ''get-firmware-version'')
   \<and> json_loads scenario_env msg_dataset = Inr (envelope ''W'' ''get-dataset-version'')
   \<and> deviceAvailable scenario_world
   \<and> SSP_RESPONSE_OK scenario_env = 0xF0
   \<and> transport scenario_env
        (wire scenario_world @ [(Validator, SEND_SSP_COMMAND [SSP_CMD_GET_FIRMWARE_VERSION])]) =
       Answer 0xF0 firmware_bytes
   \<and> transport scenario_env
        (wire scenario_world @ [(Validator, SEND_SSP_COMMAND [SSP_CMD_GET_DATASET_VERSION])]) =
       Answer 0xF0 dataset_bytes
   \<and> (\<exists>w'. cbOnRequestMessage scenario_env ''R'' (delivered ''validator-request'' msg_firmware)
               scenario_world = Inr w'
          \<and> published w' =
               [(''validator-response'', ''{"correlId":"V","version":"NV02004141498000"]}'')])
   \<and> (\<exists>w'. cbOnRequestMessage scenario_env ''R'' (delivered ''validator-request'' msg_dataset)
               scenario_world = Inr w'
          \<and> published w' =
               [(''validator-response'', ''{"correlId":"W","version":"EUR01610"]}'')])\<close>
proof -
  have t: "transport scenario_env
        (wire scenario_world @ [(Validator, SEND_SSP_COMMAND [SSP_CMD_GET_FIRMWARE_VERSION])]) =
       Answer 0xF0 firmware_bytes"
    "transport scenario_env
        (wire scenario_world @ [(Validator, SEND_SSP_COMMAND [SSP_CMD_GET_DATASET_VERSION])]) =
       Answer 0xF0 dataset_bytes"
    by (simp_all add: scenario_env_simps scenario_world_simps scenario_transport_simps)
  note h = scenario_loads_simps(5) scenario_loads_simps(6) scenario_world_simps(1)
    scenario_env_simps(1) t
  from version_reply_text [OF h, of "''R''"] show ?thesis
    using h by (simp add: scenario_world_simps)
qed

section \<open>The denomination level\<close>

text \<open>
  Claim C2. \<open>set-denomination-level\<close> takes the property \<open>level\<close> as the number of coins and
  \<open>amount\<close> as the coin value; with \<open>level > 0\<close> it first sends the wire command with level
  0 and the coin value of \<open>amount\<close>, then with the level of \<open>level\<close> and the same value. The
  handler is evaluated here at \<open>level\<close> 5 and \<open>amount\<close> 200: both wire commands carry the
  coin value 5, the first with level 0 and the second with level 200.
\<close>

theorem set_denomination_level_wire_calls:
  assumes "jsonMessage cmd = json_set_level"
  shows "json_object_get json_set_level ''level'' = Some (JInteger 5)
       \<and> json_object_get json_set_level ''amount'' = Some (JInteger 200)
       \<and> wire (handleSetDenominationLevels e cmd w) =
           wire w @
           [(device cmd, SEND_SSP_COMMAND [0x34, 0, 0, 5, 0, 0, 0, 0x45, 0x55, 0x52]),
            (device cmd, SEND_SSP_COMMAND [0x34, 200, 0, 5, 0, 0, 0, 0x45, 0x55, 0x52])]"
proof -
  have j: "json_object_get json_set_level ''level'' = Some (JInteger 5)"
    "json_object_get json_set_level ''amount'' = Some (JInteger 200)"
    by (simp_all add: json_set_level_def)
  have n: "int_of_double (of_int 5) = 5" "int_of_double (of_int 200) = 200"
    by (simp_all add: int_of_double_def)
  have pos: "0 <s (200 :: 32 word)"
    by (simp add: word_sless_alt)
  show ?thesis
    using assms j n pos
    by (simp add: handleSetDenominationLevels_def Let_def split_beta
        set_denomination_level_wire le_bytes_scenario SSP_CMD_SET_DENOMINATION_LEVEL_def)
qed

text \<open>The same command in the scenario environment.\<close>

theorem set_denomination_level_wire_calls_witness:
  "jsonMessage (scenario_command ''set-denomination-level'' json_set_level) = json_set_level
   \<and> wire (handleSetDenominationLevels scenario_env
             (scenario_command ''set-denomination-level'' json_set_level) scenario_world) =
       [(Validator, SEND_SSP_COMMAND [0x34, 0, 0, 5, 0, 0, 0, 0x45, 0x55, 0x52]),
        (Validator, SEND_SSP_COMMAND [0x34, 200, 0, 5, 0, 0, 0, 0x45, 0x55, 0x52])]"
proof -
  have h: "jsonMessage (scenario_command ''set-denomination-level'' json_set_level) =
      json_set_level"
    by (simp add: scenario_command_def)
  have d: "device (scenario_command ''set-denomination-level'' json_set_level) = Validator"
    by (simp add: scenario_command_def)
  from set_denomination_level_wire_calls [OF h, of scenario_env scenario_world] show ?thesis
    using h by (simp add: d scenario_world_simps)
qed

section \<open>The channel commands\<close>

text \<open>
  Claim C6. Every accepted \<open>enable-channels\<close> (or \<open>disable-channels\<close>) command with a
  \<open>channels\<close> string makes the wire call \<open>set_inhibits(new_mask, 0xFF)\<close>, \<open>new_mask\<close> being the
  OR (or AND-NOT) of the cached mask with the requested mask, and stores \<open>new_mask\<close>
  exactly when the call returns OK. The callback is evaluated here at four accepted
  commands with the channels \<open>135\<close>: the two messages written without blanks do so, with
  \<open>old OR 0x15\<close> and \<open>old AND NOT 0x15\<close>; the same two messages written with a blank after
  the colons are answered as unknown commands, and nothing else of the state changes: no
  wire call is made and the cached mask stays.
\<close>

theorem channel_commands_by_text:
  assumes "json_loads e msg_enable_channels = Inr (json_channels ''enable-channels'' ''135'')"
    and "json_loads e msg_disable_channels = Inr (json_channels ''disable-channels'' ''135'')"
    and "json_loads e msg_enable_channels_spaced = Inr (json_channels ''enable-channels'' ''135'')"
    and "json_loads e msg_disable_channels_spaced =
           Inr (json_channels ''disable-channels'' ''135'')"
    and "deviceAvailable w"
  shows \<open>(\<exists>w'. cbOnRequestMessage e uuid (delivered ''validator-request'' msg_enable_channels) w
                = Inr w'
              \<and> wire w' = wire w @
                   [(Validator, SSP6_SET_INHIBITS (channelInhibits (validator w) OR 0x15) 0xFF)]
              \<and> channelInhibits (validator w') =
                   (if set_inhibits_ok e Validator (channelInhibits (validator w) OR 0x15) 0xFF w
                    then channelInhibits (validator w) OR 0x15
                    else channelInhibits (validator w)))
       \<and> (\<exists>w'. cbOnRequestMessage e uuid (delivered ''validator-request'' msg_disable_channels) w
                = Inr w'
              \<and> wire w' = wire w @
                   [(Validator,
                     SSP6_SET_INHIBITS (channelInhibits (validator w) AND NOT 0x15) 0xFF)]
              \<and> channelInhibits (validator w') =
                   (if set_inhibits_ok e Validator (channelInhibits (validator w) AND NOT 0x15)
                         0xFF w
                    then channelInhibits (validator w) AND NOT 0x15
                    else channelInhibits (validator w)))
       \<and> cbOnRequestMessage e uuid (delivered ''validator-request'' msg_enable_channels_spaced) w =
           Inr (w\<lparr>published := published w @
                  [(''validator-response'',
                    ''{"correlId":"B","error":"unknown command","cmd":"{"msgId":"B", "cmd": "enable-channels", "channels": "135"}"}'')]\<rparr>)
       \<and> cbOnRequestMessage e uuid (delivered ''validator-request'' msg_disable_channels_spaced) w =
           Inr (w\<lparr>published := published w @
                  [(''validator-response'',
                    ''{"correlId":"B","error":"unknown command","cmd":"{"msgId":"B", "cmd": "disable-channels", "channels": "135"}"}'')]\<rparr>)\<close>
proof -
  let ?en = "\<lparr>message = None, jsonMessage = json_channels ''enable-channels'' ''135'',
              command = ''enable-channels'', msgId = ''B'', responseMsgId = uuid,
              responseTopic = ''validator-response'', device = Validator\<rparr>"
  let ?dis = "\<lparr>message = None, jsonMessage = json_channels ''disable-channels'' ''135'',
               command = ''disable-channels'', msgId = ''B'', responseMsgId = uuid,
               responseTopic = ''validator-response'', device = Validator\<rparr>"
  have h: "json_object_get (jsonMessage ?en) ''channels'' = Some (JString ''135'')"
    "json_object_get (jsonMessage ?dis) ''channels'' = Some (JString ''135'')"
    by (simp_all add: json_channels_def)
  have compact_enable:
    "\<exists>w'. cbOnRequestMessage e uuid (delivered ''validator-request'' msg_enable_channels) w
      = Inr w'
      \<and> wire w' = wire w @
           [(Validator, SSP6_SET_INHIBITS (channelInhibits (validator w) OR 0x15) 0xFF)]
      \<and> channelInhibits (validator w') =
           (if set_inhibits_ok e Validator (channelInhibits (validator w) OR 0x15) 0xFF w
            then channelInhibits (validator w) OR 0x15
            else channelInhibits (validator w))"
    unfolding delivered_validator
      request_dispatch_channels [OF assms(1) assms(5) isCommand_quit_scenarios(10)]
      select_handler_scenarios
    using enable_disable_channels_mask [OF h(1), of w e]
    by (simp add: Let_def requested_mask_135 json_decref_same)
  have compact_disable:
    "\<exists>w'. cbOnRequestMessage e uuid (delivered ''validator-request'' msg_disable_channels) w
      = Inr w'
      \<and> wire w' = wire w @
           [(Validator, SSP6_SET_INHIBITS (channelInhibits (validator w) AND NOT 0x15) 0xFF)]
      \<and> channelInhibits (validator w') =
           (if set_inhibits_ok e Validator (channelInhibits (validator w) AND NOT 0x15) 0xFF w
            then channelInhibits (validator w) AND NOT 0x15
            else channelInhibits (validator w))"
    unfolding delivered_validator
      request_dispatch_channels [OF assms(2) assms(5) isCommand_quit_scenarios(15)]
      select_handler_scenarios
    using enable_disable_channels_mask [OF h(2), of w e]
    by (simp add: Let_def requested_mask_135 json_decref_same)
  have enable: "cbOnRequestMessage e uuid (delivered ''validator-request'' msg_enable_channels_spaced) w =
      Inr (w\<lparr>published := published w @
             [(''validator-response'',
               ''{\"correlId\":\"B\",\"error\":\"unknown command\",\"cmd\":\"{\"msgId\":\"B\", \"cmd\": \"enable-channels\", \"channels\": \"135\"}\"}'')]\<rparr>)"
    unfolding delivered_validator
      request_dispatch_channels [OF assms(3) assms(5) isCommand_quit_scenarios(11)]
      select_handler_scenarios
    by (simp add: unknown_command_def replyWith_def json_decref_def
        msg_enable_channels_spaced_def)
  have disable: "cbOnRequestMessage e uuid (delivered ''validator-request'' msg_disable_channels_spaced) w =
      Inr (w\<lparr>published := published w @
             [(''validator-response'',
               ''{\"correlId\":\"B\",\"error\":\"unknown command\",\"cmd\":\"{\"msgId\":\"B\", \"cmd\": \"disable-channels\", \"channels\": \"135\"}\"}'')]\<rparr>)"
    unfolding delivered_validator
      request_dispatch_channels [OF assms(4) assms(5) isCommand_quit_scenarios(12)]
      select_handler_scenarios
    by (simp add: unknown_command_def replyWith_def json_decref_def
        msg_disable_channels_spaced_def)
  from compact_enable compact_disable enable disable show ?thesis by blast
qed

text \<open>The messages in the scenario environment, from the cached mask \<open>0x00\<close>.\<close>

theorem channel_commands_by_text_witness:
  \<open>json_loads scenario_env msg_enable_channels = Inr (json_channels ''enable-channels'' ''135'')
   \<and> json_loads scenario_env msg_disable_channels =
       Inr (json_channels ''disable-channels'' ''135'')
   \<and> json_loads scenario_env msg_enable_channels_spaced =
       Inr (json_channels ''enable-channels'' ''135'')
   \<and> json_loads scenario_env msg_disable_channels_spaced =
       Inr (json_channels ''disable-channels'' ''135'')
   \<and> deviceAvailable scenario_world
   \<and> (\<exists>w'. cbOnRequestMessage scenario_env ''R''
               (delivered ''validator-request'' msg_enable_channels) scenario_world = Inr w'
          \<and> wire w' = [(Validator, SSP6_SET_INHIBITS 0x15 0xFF)]
          \<and> channelInhibits (validator w') = 0x15)
   \<and> (\<exists>w'. cbOnRequestMessage scenario_env ''R''
               (delivered ''validator-request'' msg_disable_channels) scenario_world = Inr w'
          \<and> wire w' = [(Validator, SSP6_SET_INHIBITS 0 0xFF)])
   \<and> cbOnRequestMessage scenario_env ''R''
        (delivered ''validator-request'' msg_enable_channels_spaced) scenario_world =
       Inr (scenario_world\<lparr>published :=
              [(''validator-response'',
                ''{"correlId":"B","error":"unknown command","cmd":"{"msgId":"B", "cmd": "enable-channels", "channels": "135"}"}'')]\<rparr>)
   \<and> wire scenario_world = [] \<and> channelInhibits (validator scenario_world) = 0\<close>
proof -
  note h = scenario_loads_simps(10) scenario_loads_simps(15) scenario_loads_simps(11)
    scenario_loads_simps(12) scenario_world_simps(1)
  have ok: "set_inhibits_ok scenario_env Validator m 0xFF scenario_world" for m
    by (simp add: set_inhibits_ok_def ssp6_set_inhibits_def exchange_def scenario_env_simps
        scenario_world_simps scenario_transport_simps)
  from channel_commands_by_text [OF h, of "''R''"] show ?thesis
    using h by (auto simp add: scenario_world_simps ok)
qed



section \<open>Published poll events\<close>

text \<open>
  Claim C4. A hopper event DISPENSING, DISPENSED, COIN_CREDIT or CASHBOX_PAID is published
  with an \<open>amount\<close> equal to \<open>data1\<close> and a \<open>cc\<close> equal to the event's currency code. The
  handler is evaluated here at a DISPENSING event of 500 and a DISPENSED event of 1000,
  both with the currency code \<open>EUR\<close>: the published texts carry the amount and no \<open>cc\<close>,
  whereas those of COIN_CREDIT and CASHBOX_PAID carry both.
\<close>

theorem dispensing_event_text:
  \<open>(poll_code e b = SSP_POLL_DISPENSING \<longrightarrow>
      hopperEventHandler e d [poll_event b 500] w =
        Inr (w\<lparr>published := published w @
               [(''hopper-event'', ''{"event":"dispensing","amount":500}'')]\<rparr>))
   \<and> (poll_code e b = SSP_POLL_DISPENSED \<longrightarrow>
      hopperEventHandler e d [poll_event b 1000] w =
        Inr (w\<lparr>published := published w @
               [(''hopper-event'', ''{"event":"dispensed","amount":1000}'')]\<rparr>))
   \<and> (poll_code e b = SSP_POLL_COIN_CREDIT \<longrightarrow>
      hopperEventHandler e d [poll_event b 500] w =
        Inr (w\<lparr>published := published w @
               [(''hopper-event'', ''{"event":"coin credit","amount":500,"cc":"EUR"}'')]\<rparr>))
   \<and> (poll_code e b = SSP_POLL_CASHBOX_PAID \<longrightarrow>
      hopperEventHandler e d [poll_event b 500] w =
        Inr (w\<lparr>published := published w @
               [(''hopper-event'', ''{"event":"cashbox paid","amount":500,"cc":"EUR"}'')]\<rparr>))
   \<and> cc (poll_event b 500) = ''EUR'' \<and> cc (poll_event b 1000) = ''EUR''\<close>
proof -
  have f: "fmt_ld 500 = ''500''" "fmt_ld 1000 = ''1000''"
    by (simp_all add: fmt_ld_def fmt_int_def decimal.simps digit_char_def)
  show ?thesis
    by (simp add: hopperEvent_def poll_event_def publishHopperEvent_def amount_cc_def f)
qed

text \<open>Scenario 3's two events in the scenario environment.\<close>

theorem dispensing_event_text_witness:
  \<open>poll_code scenario_env 0xDA = SSP_POLL_DISPENSING
   \<and> hopperEventHandler scenario_env Hopper [poll_event 0xDA 500] scenario_world =
       Inr (scenario_world\<lparr>published :=
              [(''hopper-event'', ''{"event":"dispensing","amount":500}'')]\<rparr>)
   \<and> poll_code scenario_env 0xD2 = SSP_POLL_DISPENSED
   \<and> hopperEventHandler scenario_env Hopper [poll_event 0xD2 1000] scenario_world =
       Inr (scenario_world\<lparr>published :=
              [(''hopper-event'', ''{"event":"dispensed","amount":1000}'')]\<rparr>)\<close>
proof -
  have c: "poll_code scenario_env 0xDA = SSP_POLL_DISPENSING"
    "poll_code scenario_env 0xD2 = SSP_POLL_DISPENSED"
    by (simp_all add: scenario_env_simps scenario_poll_code_def)
  from dispensing_event_text [of scenario_env "0xDA" Hopper scenario_world]
    dispensing_event_text [of scenario_env "0xD2" Hopper scenario_world]
  show ?thesis
    using c by (simp add: scenario_world_simps)
qed

text \<open>
  Claim C5. For a validator event READ with \<open>data1 = k > 0\<close>, and for a validator event
  CREDIT with channel \<open>k\<close>, the published \<open>amount\<close> is the value of channel \<open>k\<close> in the cached
  setup report multiplied by 100. The handler is evaluated here at a report whose channel
  1 has the value 50000000: the product is formed in the 32 bits of \<open>unsigned int\<close> before
  it is widened to the \<open>unsigned long amount\<close>, and the published amount is 705032704,
  not 5000000000.
\<close>

theorem validator_amount_wraps:
  assumes "ChannelData (get_device d w) = [\<lparr>channel_value = 50000000, channel_cc = ''EUR''\<rparr>]"
  shows \<open>(poll_code e b = SSP_POLL_READ \<longrightarrow>
            validatorEventHandler e d [poll_event b 1] w =
              Inr (w\<lparr>published := published w @
                     [(''validator-event'',
                       ''{"event":"read","amount":705032704,"channel":1}'')]\<rparr>))
       \<and> (poll_code e b = SSP_POLL_CREDIT \<longrightarrow>
            validatorEventHandler e d [poll_event b 1] w =
              Inr (w\<lparr>published := published w @
                     [(''validator-event'',
                       ''{"event":"credit","amount":705032704,"channel":1}'')]\<rparr>))
       \<and> unat (channel_value (ChannelData (get_device d w) ! 0)) * 100 = 5000000000\<close>
proof -
  have k: "data1 (poll_event b 1) = of_nat 1" "(1::nat) \<le> 1"
    "1 \<le> length (ChannelData (get_device d w))" "(1::nat) < 2 ^ 63"
    using assms by (simp_all add: poll_event_def)
  have c: "event (poll_event b 1) = b"
    by (simp add: poll_event_def)
  have v: "decimal (unat (50000000 * 100 :: 32 word)) = ''705032704''" "decimal 1 = ''1''"
    by (simp_all add: decimal.simps digit_char_def)
  have read: "validatorEventHandler e d [poll_event b 1] w =
      Inr (w\<lparr>published := published w @
             [(''validator-event'', ''{\"event\":\"read\",\"amount\":705032704,\"channel\":1}'')]\<rparr>)"
    if "poll_code e b = SSP_POLL_READ"
    using validator_event_amount [OF k, of e "''read''"] that assms v
    by (simp add: c publishValidatorEvent_def)
  have credit: "validatorEventHandler e d [poll_event b 1] w =
      Inr (w\<lparr>published := published w @
             [(''validator-event'', ''{\"event\":\"credit\",\"amount\":705032704,\"channel\":1}'')]\<rparr>)"
    if "poll_code e b = SSP_POLL_CREDIT"
    using validator_event_amount [OF k, of e "''credit''"] that assms v
    by (simp add: c publishValidatorEvent_def)
  from read credit assms show ?thesis by simp
qed

text \<open>The READ event in the scenario environment, with that report.\<close>

theorem validator_amount_wraps_witness:
  \<open>ChannelData (get_device Validator
       (scenario_world\<lparr>validator := (validator scenario_world)
          \<lparr>ChannelData := [\<lparr>channel_value = 50000000, channel_cc = ''EUR''\<rparr>]\<rparr>\<rparr>)) =
     [\<lparr>channel_value = 50000000, channel_cc = ''EUR''\<rparr>]
   \<and> poll_code scenario_env 0xEF = SSP_POLL_READ
   \<and> (\<exists>w'. validatorEventHandler scenario_env Validator [poll_event 0xEF 1]
              (scenario_world\<lparr>validator := (validator scenario_world)
                 \<lparr>ChannelData := [\<lparr>channel_value = 50000000, channel_cc = ''EUR''\<rparr>]\<rparr>\<rparr>) = Inr w'
          \<and> published w' =
               [(''validator-event'', ''{"event":"read","amount":705032704,"channel":1}'')])\<close>
proof -
  let ?w = "scenario_world\<lparr>validator := (validator scenario_world)
      \<lparr>ChannelData := [\<lparr>channel_value = 50000000, channel_cc = ''EUR''\<rparr>]\<rparr>\<rparr>"
  have h: "ChannelData (get_device Validator ?w) =
      [\<lparr>channel_value = 50000000, channel_cc = ''EUR''\<rparr>]"
    by simp
  have c: "poll_code scenario_env 0xEF = SSP_POLL_READ"
    by (simp add: scenario_env_simps scenario_poll_code_def)
  from validator_amount_wraps [OF h, of scenario_env "0xEF"] show ?thesis
    using c by (simp add: scenario_world_simps)
qed

text \<open>
  Claim C10. The CREDIT branch indexes the cached setup report with \<open>data1 - 1\<close> without
  testing \<open>data1 > 0\<close>: with \<open>data1 = 0\<close> the index lies outside the array, whereas READ
  with \<open>data1 = 0\<close> is answered by the guarded branch; a CREDIT event is translated only
  if \<open>data1 \<ge> 1\<close>.
\<close>

theorem validator_credit_unguarded:
  assumes "length (ChannelData (get_device d w)) < 2 ^ 64"
  shows \<open>(poll_code e (event ev) = SSP_POLL_CREDIT \<and> data1 ev = 0 \<longrightarrow>
            validatorEventHandler e d [ev] w = Inl Out_of_bounds)
       \<and> (poll_code e (event ev) = SSP_POLL_READ \<and> data1 ev = 0 \<longrightarrow>
            validatorEventHandler e d [ev] w =
              Inr (publishValidatorEvent ''{"event":"reading"}'' w))
       \<and> (poll_code e (event ev) = SSP_POLL_CREDIT
            \<and> (\<exists>w'. validatorEventHandler e d [ev] w = Inr w') \<longrightarrow> 1 \<le> data1 ev)\<close>
proof -
  have zero: "channel_amount (get_device d w) 0 = Inl Out_of_bounds"
    using assms by (rule channel_amount_zero)
  have one: "1 \<le> x" if "x \<noteq> 0" for x :: "64 word"
    using that by (simp add: word_le_nat_alt unat_gt_0 Suc_le_eq)
  have credit: "validatorEventHandler e d [ev] w = Inl Out_of_bounds"
    if "poll_code e (event ev) = SSP_POLL_CREDIT" "data1 ev = 0"
    using that by (simp add: validatorEvent_def zero)
  have read: "validatorEventHandler e d [ev] w =
      Inr (publishValidatorEvent ''{\"event\":\"reading\"}'' w)"
    if "poll_code e (event ev) = SSP_POLL_READ" "data1 ev = 0"
    using that by (simp add: validatorEvent_def)
  have only: "1 \<le> data1 ev"
    if "poll_code e (event ev) = SSP_POLL_CREDIT" "validatorEventHandler e d [ev] w = Inr w'"
    for w'
  proof (rule one, rule notI)
    assume "data1 ev = 0"
    with that(1) have "validatorEventHandler e d [ev] w = Inl Out_of_bounds"
      by (rule credit)
    with that(2) show False by simp
  qed
  from credit read only show ?thesis by blast
qed

theorem validator_credit_unguarded_witness:
  \<open>length (ChannelData (get_device Validator scenario_world)) < 2 ^ 64
   \<and> poll_code scenario_env (event (poll_event 0xEE 0)) = SSP_POLL_CREDIT
   \<and> data1 (poll_event 0xEE 0) = 0
   \<and> validatorEventHandler scenario_env Validator [poll_event 0xEE 0] scenario_world =
       Inl Out_of_bounds
   \<and> poll_code scenario_env (event (poll_event 0xEF 0)) = SSP_POLL_READ
   \<and> validatorEventHandler scenario_env Validator [poll_event 0xEF 0] scenario_world =
       Inr (scenario_world\<lparr>published := [(''validator-event'', ''{"event":"reading"}'')]\<rparr>)
   \<and> poll_code scenario_env (event (poll_event 0xEE 3)) = SSP_POLL_CREDIT
   \<and> (\<exists>w'. validatorEventHandler scenario_env Validator [poll_event 0xEE 3] scenario_world =
             Inr w')
   \<and> 1 \<le> data1 (poll_event 0xEE 3)\<close>
proof -
  have h: "length (ChannelData (get_device Validator scenario_world)) < 2 ^ 64"
    by (simp add: scenario_world_def)
  have c: "poll_code scenario_env (event (poll_event 0xEE x)) = SSP_POLL_CREDIT"
    "poll_code scenario_env (event (poll_event 0xEF x)) = SSP_POLL_READ" for x
    by (simp_all add: scenario_env_def poll_event_def scenario_poll_code_def)
  have z: "data1 (poll_event b 0) = 0" for b
    by (simp add: poll_event_def)
  have three: "data1 (poll_event 0xEE 3) = of_nat 3" "(1::nat) \<le> 3"
    "3 \<le> length (ChannelData (get_device Validator scenario_world))" "(3::nat) < 2 ^ 63"
    by (simp_all add: poll_event_def scenario_world_def)
  have r: "\<exists>w'. validatorEventHandler scenario_env Validator [poll_event 0xEE 3] scenario_world =
      Inr w'"
    using validator_event_amount [OF three, of scenario_env "''credit''"] c by simp
  from validator_credit_unguarded [OF h, of scenario_env "poll_event 0xEE 0"]
    validator_credit_unguarded [OF h, of scenario_env "poll_event 0xEF 0"]
    validator_credit_unguarded [OF h, of scenario_env "poll_event 0xEE 3"]
  show ?thesis
    using h c z r by (simp add: publishValidatorEvent_def scenario_world_def)
qed

end
